theory Spec2Isabelle
  imports Complex_Main "HOL-Library.Char_ord" "HOL-Library.List_Lexorder"
begin

section \<open>Configuration (config.py)\<close>

text \<open>
  The three polling parameters are read from the process environment once at import time
  (\<^verbatim>\<open>int(os.environ.get(...))\<close>), so they are arbitrary Python integers; the
  defaults are 30, 14400 and 600 seconds.
\<close>

record config =
  POLL_ACTIVE_INTERVAL :: int
  POLL_IDLE_INTERVAL :: int
  POLL_DECAY_TIMEOUT :: int

definition default_config :: config where
  "default_config =
     \<lparr>POLL_ACTIVE_INTERVAL = 30, POLL_IDLE_INTERVAL = 14400, POLL_DECAY_TIMEOUT = 600\<rparr>"

section \<open>The poller state machine (poller.py)\<close>

datatype PollMode = IDLE | ACTIVE

text \<open>
  The two mutable attributes of \<^verbatim>\<open>Poller\<close> that the state machine uses:
  \<^verbatim>\<open>_mode\<close> and \<^verbatim>\<open>_last_skill_touch\<close>. The latter is a Python float holding a
  reading of \<^verbatim>\<open>time.monotonic()\<close>, a binary64 number (see \<open>float_sub\<close> below).
  The database handle is shared with the request handlers and is therefore kept beside the
  poller, in \<open>sidecar\<close> below.
\<close>

record Poller =
  mode :: PollMode
  last_skill_touch :: real

definition Poller_init :: Poller where
  "Poller_init = \<lparr>mode = IDLE, last_skill_touch = 0\<rparr>"

text \<open>\<^verbatim>\<open>touch\<close>; the argument \<open>now\<close> is the value \<^verbatim>\<open>time.monotonic()\<close> returns.\<close>

definition touch :: "real \<Rightarrow> Poller \<Rightarrow> Poller" where
  "touch now p =
     (let p1 = p\<lparr>last_skill_touch := now\<rparr>
      in if mode p1 \<noteq> ACTIVE then p1\<lparr>mode := ACTIVE\<rparr> else p1)"

definition current_interval :: "config \<Rightarrow> Poller \<Rightarrow> int" where
  "current_interval cfg p =
     (if mode p = ACTIVE then POLL_ACTIVE_INTERVAL cfg else POLL_IDLE_INTERVAL cfg)"

text \<open>
  Python floats are IEEE 754 binary64 numbers. A clock reading is such a number, taken here
  as the real it denotes; the one arithmetic operation the loop applies to readings is a
  subtraction, whose result is the exact difference rounded to the nearest binary64 number,
  ties to the even significand. \<open>exponent_of a\<close> is the \<open>e\<close> with
  \<open>2 ^ e \<le> a < 2 ^ (e + 1)\<close> for a positive \<open>a\<close>; below \<open>2 ^ - 1022\<close> the
  spacing of the subnormal numbers applies. Clock readings are far from the overflow
  threshold, and no difference of two of them becomes infinite. Comparisons of a float with
  an \<^verbatim>\<open>int\<close> or with another float are exact in Python.
\<close>

fun ilog2 :: "nat \<Rightarrow> nat" where
  "ilog2 n = (if n < 2 then 0 else Suc (ilog2 (n div 2)))"

declare ilog2.simps [simp del]

definition exponent_of :: "real \<Rightarrow> int" where
  "exponent_of a =
     (if 1 \<le> a then int (ilog2 (nat \<lfloor>a\<rfloor>))
      else - int (Suc (ilog2 (nat (\<lceil>1 / a\<rceil> - 1)))))"

definition pow2 :: "int \<Rightarrow> real" where
  "pow2 q = (if 0 \<le> q then 2 ^ nat q else 1 / 2 ^ nat (- q))"

definition round_half_even :: "real \<Rightarrow> int" where
  "round_half_even m =
     (let f = \<lfloor>m\<rfloor>; d = m - of_int f
      in if d < 1 / 2 then f else if 1 / 2 < d then f + 1 else if even f then f else f + 1)"

definition double_of :: "real \<Rightarrow> real" where
  "double_of x =
     (if x = 0 then 0
      else (let a = \<bar>x\<bar>;
                q = max (exponent_of a) (- 1022) - 52
            in sgn x * of_int (round_half_even (a / pow2 q)) * pow2 q))"

text \<open>The float subtraction \<^verbatim>\<open>a - b\<close>.\<close>

definition float_sub :: "real \<Rightarrow> real \<Rightarrow> real" where
  "float_sub a b = double_of (a - b)"

text \<open>
  Lines 76--84 of \<^verbatim>\<open>_loop\<close>: the decay check. It receives the interval computed
  before it and the clock reading, and returns the poller and the interval to sleep.
\<close>

definition decay_check :: "config \<Rightarrow> real \<Rightarrow> Poller \<Rightarrow> int \<Rightarrow> Poller \<times> int" where
  "decay_check cfg now p interval =
     (if mode p = ACTIVE \<and> last_skill_touch p > 0 then
        (let elapsed = float_sub now (last_skill_touch p)
         in if elapsed > real_of_int (POLL_DECAY_TIMEOUT cfg)
            then (p\<lparr>mode := IDLE\<rparr>, POLL_IDLE_INTERVAL cfg)
            else (p, interval))
      else (p, interval))"

section \<open>The store (db.py)\<close>

text \<open>
  A message dict as \<^verbatim>\<open>upsert_messages\<close> reads it: the keys \<^verbatim>\<open>id\<close>,
  \<^verbatim>\<open>sender_name\<close>, \<^verbatim>\<open>text\<close> and \<^verbatim>\<open>created_at\<close> are indexed, the key
  \<^verbatim>\<open>sender_email\<close> is read with a default. A row of the \<^verbatim>\<open>messages\<close> table has
  the six TEXT columns of the schema.
\<close>

record message =
  msg_id :: string
  sender_name :: string
  sender_email :: "string option"
  msg_text :: string
  created_at :: string

record message_row =
  row_id :: string
  row_sender_name :: string
  row_sender_email :: string
  row_text :: string
  row_created_at :: string
  row_fetched_at :: string

text \<open>
  The connection: the three tables and SQLite's per-connection counter
  \<^verbatim>\<open>total_changes\<close> (rows inserted, modified or deleted since the connection was opened;
  a row skipped by \<^verbatim>\<open>OR IGNORE\<close> is not counted, an \<^verbatim>\<open>INSERT OR REPLACE\<close> counts once).
  The \<^verbatim>\<open>messages\<close> table is the list of its rows in insertion (rowid) order; the two
  key-value tables are maps, their key being the primary key.
\<close>

record Database =
  messages :: "message_row list"
  state :: "string \<rightharpoonup> string"
  auth :: "string \<rightharpoonup> string"
  total_changes :: nat

definition Database_init :: Database where
  "Database_init = \<lparr>messages = [], state = Map.empty, auth = Map.empty, total_changes = 0\<rparr>"

text \<open>Python truthiness of a \<^verbatim>\<open>str | None\<close>: neither \<^verbatim>\<open>None\<close> nor the empty string.\<close>

fun truthy :: "string option \<Rightarrow> bool" where
  "truthy None = False"
| "truthy (Some s) = (s \<noteq> [])"

definition row_of :: "message \<Rightarrow> string \<Rightarrow> message_row" where
  "row_of msg now =
     \<lparr>row_id = msg_id msg,
      row_sender_name = sender_name msg,
      row_sender_email = (case sender_email msg of None \<Rightarrow> [] | Some e \<Rightarrow> e),
      row_text = msg_text msg,
      row_created_at = created_at msg,
      row_fetched_at = now\<rparr>"

text \<open>
  \<^verbatim>\<open>INSERT OR IGNORE INTO messages\<close>: a row whose primary key is already in the table
  is skipped and changes nothing; otherwise the row is appended and counted.
\<close>

definition insert_or_ignore :: "Database \<Rightarrow> message_row \<Rightarrow> Database" where
  "insert_or_ignore db r =
     (if row_id r \<in> set (map row_id (messages db)) then db
      else db\<lparr>messages := messages db @ [r], total_changes := total_changes db + 1\<rparr>)"

text \<open>
  The \<^verbatim>\<open>for\<close> loop of \<^verbatim>\<open>upsert_messages\<close>: after each statement the counter
  \<^verbatim>\<open>inserted\<close> is increased by \<^verbatim>\<open>self.conn.total_changes\<close>.
\<close>

fun upsert_loop :: "string \<Rightarrow> message list \<Rightarrow> Database \<Rightarrow> int \<Rightarrow> Database \<times> int" where
  "upsert_loop now [] db inserted = (db, inserted)"
| "upsert_loop now (msg # rest) db inserted =
     (let db' = insert_or_ignore db (row_of msg now)
      in upsert_loop now rest db' (inserted + int (total_changes db')))"

text \<open>\<open>now\<close> is the wall-clock text \<^verbatim>\<open>datetime.now(timezone.utc).isoformat()\<close>.\<close>

definition upsert_messages :: "Database \<Rightarrow> string \<Rightarrow> message list \<Rightarrow> Database \<times> int" where
  "upsert_messages db now msgs = upsert_loop now msgs db 0"







definition get_state :: "Database \<Rightarrow> string \<Rightarrow> string option" where
  "get_state db key = state db key"

text \<open>\<^verbatim>\<open>INSERT OR REPLACE INTO state\<close>, then commit.\<close>

definition set_state :: "Database \<Rightarrow> string \<Rightarrow> string \<Rightarrow> Database" where
  "set_state db key v = db\<lparr>state := (state db)(key \<mapsto> v), total_changes := total_changes db + 1\<rparr>"

definition get_auth :: "Database \<Rightarrow> string \<Rightarrow> string option" where
  "get_auth db key = auth db key"

definition set_auth :: "Database \<Rightarrow> string \<Rightarrow> string \<Rightarrow> Database" where
  "set_auth db key v = db\<lparr>auth := (auth db)(key \<mapsto> v), total_changes := total_changes db + 1\<rparr>"


text \<open>
  \<^verbatim>\<open>mark_read\<close>: \<^verbatim>\<open>timestamp or now\<close>, where \<open>now\<close> is the wall-clock text; returns
  the marker written.
\<close>

definition mark_read :: "Database \<Rightarrow> string option \<Rightarrow> string \<Rightarrow> Database \<times> string" where
  "mark_read db timestamp now =
     (let ts = (case timestamp of None \<Rightarrow> now | Some t \<Rightarrow> if t \<noteq> [] then t else now)
      in (set_state db ''read_marker'' ts, ts))"

definition message_count :: "Database \<Rightarrow> int" where
  "message_count db = int (length (messages db))"

text \<open>
  \<^verbatim>\<open>SELECT created_at FROM messages ORDER BY created_at DESC LIMIT 1\<close>, then
  \<^verbatim>\<open>fetchone()\<close>.
\<close>

definition latest_message_time :: "Database \<Rightarrow> string option" where
  "latest_message_time db =
     (case rev (sort_key row_created_at (messages db)) of
        [] \<Rightarrow> None
      | row # _ \<Rightarrow> Some (row_created_at row))"


section \<open>The remote fetcher (chat_api.py, auth.py)\<close>

text \<open>
  Exceptions are values. All of them are subclasses of \<^verbatim>\<open>Exception\<close>;
  \<open>RuntimeError\<close> is the one \<^verbatim>\<open>poll_fn\<close> catches, \<open>ValueError\<close> is what
  \<^verbatim>\<open>datetime.fromisoformat\<close> raises, the others stand for what the Google client
  libraries raise (token refresh, HTTP and transport failures).
\<close>

datatype py_error = RuntimeError | ValueError | RefreshError | HttpError | TransportError

text \<open>
  A message as the Chat API returns it, every key possibly missing; the nested
  \<^verbatim>\<open>sender\<close> dict is flattened into its two keys.
\<close>

record raw_message =
  raw_name :: "string option"
  raw_displayName :: "string option"
  raw_email :: "string option"
  raw_text :: "string option"
  raw_createTime :: "string option"

definition get_default :: "'a option \<Rightarrow> 'a \<Rightarrow> 'a" where
  "get_default v d = (case v of None \<Rightarrow> d | Some x \<Rightarrow> x)"

definition normalize_msg :: "raw_message \<Rightarrow> message" where
  "normalize_msg msg =
     \<lparr>msg_id = get_default (raw_name msg) [],
      sender_name = get_default (raw_displayName msg) ''Unknown'',
      sender_email = Some (get_default (raw_email msg) []),
      msg_text = get_default (raw_text msg) [],
      created_at = get_default (raw_createTime msg) []\<rparr>"

text \<open>
  The \<^verbatim>\<open>filter\<close> argument of the list request: absent, or
  \<^verbatim>\<open>createTime > "ts"\<close> with \<open>ts\<close> the rendering of the datetime \<open>after\<close>.
\<close>

datatype 'dt chat_filter = NoFilter | CreateTimeGt 'dt

record 'dt list_request =
  pageSize :: int
  filter_arg :: "'dt chat_filter"

record 'dt credentials =
  token :: "string option"
  refresh_token :: string
  expiry :: "'dt option"

text \<open>
  Everything a tick reads from outside the process. The type \<open>'dt\<close> is Python's
  \<^verbatim>\<open>datetime\<close>.
  \<^item> \<open>fromisoformat\<close>: \<^verbatim>\<open>datetime.fromisoformat\<close>, \<open>None\<close> where it raises ValueError;
  \<^item> \<open>isoformat\<close>: \<^verbatim>\<open>datetime.isoformat\<close>;
  \<^item> \<open>creds_stale\<close>: \<^verbatim>\<open>creds.expired or not creds.valid\<close> for the credentials built
    from the stored tokens;
  \<^item> \<open>refresh_outcome\<close>: what \<^verbatim>\<open>creds.refresh(Request())\<close> does, an exception or the
    new access token and expiry;
  \<^item> \<open>remote_list\<close>: the pages the Chat API answers a list request with, in order, each an
    exception of \<^verbatim>\<open>execute()\<close> or the page's messages; the last page carries no
    \<^verbatim>\<open>nextPageToken\<close>;
  \<^item> \<open>utcnow_upsert\<close>, \<open>utcnow_poll\<close>: \<^verbatim>\<open>datetime.now(timezone.utc).isoformat()\<close> as
    read in \<^verbatim>\<open>upsert_messages\<close> and in \<^verbatim>\<open>_loop\<close>;
  \<^item> \<open>monotonic\<close>: \<^verbatim>\<open>time.monotonic()\<close> as read by the decay check.
\<close>

record 'dt world =
  fromisoformat :: "string \<Rightarrow> 'dt option"
  isoformat :: "'dt \<Rightarrow> string"
  creds_stale :: "'dt credentials \<Rightarrow> bool"
  refresh_outcome :: "py_error + (string \<times> 'dt option)"
  remote_list :: "'dt list_request \<Rightarrow> (py_error + raw_message list) list"
  utcnow_upsert :: string
  utcnow_poll :: string
  monotonic :: real

text \<open>
  \<^verbatim>\<open>X = datetime.fromisoformat(s) if s else None\<close>, the pattern of both
  \<^verbatim>\<open>load_credentials\<close> and \<^verbatim>\<open>poll_fn\<close>.
\<close>

definition parse_if_truthy :: "'dt world \<Rightarrow> string option \<Rightarrow> py_error + 'dt option" where
  "parse_if_truthy w s =
     (case s of
        None \<Rightarrow> Inr None
      | Some t \<Rightarrow>
          if t \<noteq> [] then (case fromisoformat w t of None \<Rightarrow> Inl ValueError | Some d \<Rightarrow> Inr (Some d))
          else Inr None)"

text \<open>
  \<^verbatim>\<open>load_credentials\<close> returns the credentials, \<^verbatim>\<open>None\<close> when no refresh token is
  stored, or raises; a successful refresh is written back to the \<^verbatim>\<open>auth\<close> table.
\<close>

definition load_credentials ::
  "'dt world \<Rightarrow> Database \<Rightarrow> (py_error + 'dt credentials option) \<times> Database" where
  "load_credentials w db =
     (if \<not> truthy (get_auth db ''refresh_token'') then (Inr None, db)
      else
        (let access_token = get_auth db ''access_token'';
             expiry_raw = get_auth db ''token_expiry''
         in case parse_if_truthy w expiry_raw of
              Inl e \<Rightarrow> (Inl e, db)
            | Inr expiry_opt \<Rightarrow>
                (let creds = \<lparr>token = access_token,
                              refresh_token = get_default (get_auth db ''refresh_token'') [],
                              expiry = expiry_opt\<rparr>
                 in if creds_stale w creds then
                      (case refresh_outcome w of
                         Inl e \<Rightarrow> (Inl e, db)
                       | Inr (new_token, new_expiry) \<Rightarrow>
                           (let db1 = set_auth db ''access_token'' new_token;
                                db2 = (case new_expiry of
                                         None \<Rightarrow> db1
                                       | Some d \<Rightarrow> set_auth db1 ''token_expiry'' (isoformat w d))
                            in (Inr (Some (creds\<lparr>token := Some new_token, expiry := new_expiry\<rparr>)),
                                db2)))
                    else (Inr (Some creds), db))))"

text \<open>\<^verbatim>\<open>_get_service\<close>: RuntimeError when there are no credentials.\<close>

definition get_service ::
  "'dt world \<Rightarrow> Database \<Rightarrow> (py_error + 'dt credentials) \<times> Database" where
  "get_service w db =
     (case load_credentials w db of
        (Inl e, db') \<Rightarrow> (Inl e, db')
      | (Inr None, db') \<Rightarrow> (Inl RuntimeError, db')
      | (Inr (Some creds), db') \<Rightarrow> (Inr creds, db'))"

text \<open>
  The paging loop of \<^verbatim>\<open>list_messages\<close>, over the pages the remote answers with: an
  exception of a page request leaves the function, a page's messages are normalised and
  appended.
\<close>

fun fetch_pages :: "(py_error + raw_message list) list \<Rightarrow> message list \<Rightarrow> py_error + message list" where
  "fetch_pages [] all_messages = Inr all_messages"
| "fetch_pages (Inl e # pages) all_messages = Inl e"
| "fetch_pages (Inr page # pages) all_messages =
     fetch_pages pages (all_messages @ map normalize_msg page)"

definition list_messages ::
  "'dt world \<Rightarrow> Database \<Rightarrow> 'dt option \<Rightarrow> int \<Rightarrow> (py_error + message list) \<times> Database" where
  "list_messages w db after page_size =
     (case get_service w db of
        (Inl e, db') \<Rightarrow> (Inl e, db')
      | (Inr svc, db') \<Rightarrow>
          (let filter_str = (case after of None \<Rightarrow> NoFilter | Some d \<Rightarrow> CreateTimeGt d);
               kwargs = \<lparr>pageSize = min page_size 1000, filter_arg = filter_str\<rparr>
           in case fetch_pages (remote_list w kwargs) [] of
                Inl e \<Rightarrow> (Inl e, db')
              | Inr all_messages \<Rightarrow> (Inr (rev all_messages), db')))"

section \<open>One poll (main.py) and the loop (poller.py)\<close>

text \<open>
  \<^verbatim>\<open>poll_fn\<close> returns the count or raises, leaves the store changed, and calls
  \<^verbatim>\<open>list_messages\<close>; \<open>fetch_calls\<close> lists the \<^verbatim>\<open>after\<close> argument of each such call.
\<close>

record 'dt poll_result =
  outcome :: "py_error + int"
  db_after :: Database
  fetch_calls :: "'dt option list"

definition poll_fn :: "'dt world \<Rightarrow> Database \<Rightarrow> 'dt poll_result" where
  "poll_fn w db =
     (let latest = latest_message_time db
      in case parse_if_truthy w latest of
           Inl e \<Rightarrow> \<lparr>outcome = Inl e, db_after = db, fetch_calls = []\<rparr>
         | Inr after \<Rightarrow>
             (case list_messages w db after 100 of
                (Inl e, db1) \<Rightarrow>
                  if e = RuntimeError
                  then \<lparr>outcome = Inr 0, db_after = db1, fetch_calls = [after]\<rparr>
                  else \<lparr>outcome = Inl e, db_after = db1, fetch_calls = [after]\<rparr>
              | (Inr msgs, db1) \<Rightarrow>
                  if msgs = []
                  then \<lparr>outcome = Inr 0, db_after = db1, fetch_calls = [after]\<rparr>
                  else (let (db2, n) = upsert_messages db1 (utcnow_upsert w) msgs
                        in \<lparr>outcome = Inr n, db_after = db2, fetch_calls = [after]\<rparr>)))"

text \<open>The poller together with the store it shares with the request handlers.\<close>

record sidecar =
  poller :: Poller
  db :: Database

definition sidecar_init :: sidecar where
  "sidecar_init = \<lparr>poller = Poller_init, db = Database_init\<rparr>"

text \<open>
  One iteration of \<^verbatim>\<open>while True\<close> in \<^verbatim>\<open>_loop\<close>: the state it leaves, the argument
  of \<^verbatim>\<open>asyncio.sleep\<close>, the exception handed to \<^verbatim>\<open>log.exception\<close> if the
  \<^verbatim>\<open>try\<close> block raised, and the fetcher calls made.
\<close>

record 'dt tick_result =
  after_tick :: sidecar
  slept :: int
  logged :: "py_error option"
  fetched_with :: "'dt option list"

definition tick :: "config \<Rightarrow> 'dt world \<Rightarrow> sidecar \<Rightarrow> 'dt tick_result" where
  "tick cfg w s =
     (let interval0 = current_interval cfg (poller s);
          (p, interval) = decay_check cfg (monotonic w) (poller s) interval0;
          r = poll_fn w (db s)
      in case outcome r of
           Inr new_count \<Rightarrow>
             \<lparr>after_tick = \<lparr>poller = p, db = set_state (db_after r) ''last_poll_at'' (utcnow_poll w)\<rparr>,
              slept = interval, logged = None, fetched_with = fetch_calls r\<rparr>
         | Inl e \<Rightarrow>
             \<lparr>after_tick = \<lparr>poller = p, db = db_after r\<rparr>,
              slept = interval, logged = Some e, fetched_with = fetch_calls r\<rparr>)"

text \<open>
  What happens to the sidecar, one event at a time: a request handler calls
  \<^verbatim>\<open>touch\<close> (with the clock reading it gets), the loop runs an iteration, or the
  mark-read handler runs. Each event is atomic: a touch that arrives while an iteration is
  polling changes only the poller, which the rest of the iteration neither reads nor
  writes, so it is the touch right after that iteration; finer interleavings of a handler
  thread with the decay check are not part of the model. The loop itself never returns; a
  run is a finite prefix of its history, and \<open>sleeps\<close> collects the intervals the loop
  slept in that prefix.
\<close>

datatype 'dt event = Touch real | Tick "'dt world" | MarkRead "string option" string

fun step :: "config \<Rightarrow> sidecar \<Rightarrow> 'dt event \<Rightarrow> sidecar" where
  "step cfg s (Touch now) = s\<lparr>poller := touch now (poller s)\<rparr>"
| "step cfg s (Tick w) = after_tick (tick cfg w s)"
| "step cfg s (MarkRead timestamp now) = s\<lparr>db := fst (mark_read (db s) timestamp now)\<rparr>"

definition run :: "config \<Rightarrow> sidecar \<Rightarrow> 'dt event list \<Rightarrow> sidecar" where
  "run cfg s evs = foldl (step cfg) s evs"

fun sleeps :: "config \<Rightarrow> sidecar \<Rightarrow> 'dt event list \<Rightarrow> int list" where
  "sleeps cfg s [] = []"
| "sleeps cfg s (Tick w # evs) = slept (tick cfg w s) # sleeps cfg (step cfg s (Tick w)) evs"
| "sleeps cfg s (ev # evs) = sleeps cfg (step cfg s ev) evs"

section \<open>Histories and auxiliary predicates\<close>

text \<open>
  The clock readings the touches of a history obtained. \<^verbatim>\<open>time.monotonic()\<close> counts
  from an unspecified reference point; on the platforms the sidecar runs on the reading is
  strictly positive, which \<open>clock_positive\<close> says of a history.
\<close>

fun touch_readings :: "'dt event list \<Rightarrow> real list" where
  "touch_readings [] = []"
| "touch_readings (Touch now # evs) = now # touch_readings evs"
| "touch_readings (ev # evs) = touch_readings evs"

definition clock_positive :: "'dt event list \<Rightarrow> bool" where
  "clock_positive evs = list_all (\<lambda>now. 0 < now) (touch_readings evs)"

text \<open>The invariant: an ACTIVE poller holds a positive last-touch reading.\<close>

definition touched :: "Poller \<Rightarrow> bool" where
  "touched p = (if mode p = ACTIVE then 0 < last_skill_touch p else True)"

text \<open>The condition under which the decay check of \<^verbatim>\<open>_loop\<close> fires.\<close>

definition decay_due :: "config \<Rightarrow> real \<Rightarrow> Poller \<Rightarrow> bool" where
  "decay_due cfg now p =
     (mode p = ACTIVE \<and> 0 < last_skill_touch p
      \<and> real_of_int (POLL_DECAY_TIMEOUT cfg) < float_sub now (last_skill_touch p))"

section \<open>Concrete worlds and stores\<close>

text \<open>
  A world in which datetimes are natural numbers (the length of the text stands for its
  parse), the stored credentials are fresh, the remote answers with one empty page, and the
  monotonic clock reads 700.
\<close>

definition w0 :: "nat world" where
  "w0 = \<lparr>fromisoformat = (\<lambda>s. Some (length s)), isoformat = (\<lambda>d. []),
         creds_stale = (\<lambda>c. False), refresh_outcome = Inl RefreshError,
         remote_list = (\<lambda>r. [Inr []]), utcnow_upsert = ''2024-01-01T00:00:01+00:00'',
         utcnow_poll = ''2024-01-01T00:00:02+00:00'', monotonic = 700\<rparr>"

text \<open>
  A store that holds OAuth tokens and nothing else, and a world whose remote answers the
  list request with an HTTP error.
\<close>

definition db_authed :: Database where
  "db_authed = Database_init\<lparr>auth := [''refresh_token'' \<mapsto> ''1//rt'', ''access_token'' \<mapsto> ''ya29.at'']\<rparr>"

definition w_http_error :: "nat world" where
  "w_http_error = w0\<lparr>remote_list := (\<lambda>r. [Inl HttpError])\<rparr>"

text \<open>
  A message of the remote space, a world whose remote answers with that message, the store
  once the message is in it, and a world whose \<^verbatim>\<open>fromisoformat\<close> rejects every text.
\<close>

definition raw_a :: raw_message where
  "raw_a = \<lparr>raw_name = Some ''spaces/S/messages/a'', raw_displayName = Some ''Ada'',
            raw_email = None, raw_text = Some ''hello'',
            raw_createTime = Some ''2024-01-01T10:00:00.000000Z''\<rparr>"

definition w_one_message :: "nat world" where
  "w_one_message = w0\<lparr>remote_list := (\<lambda>r. [Inr [raw_a]])\<rparr>"

definition db_stored :: Database where
  "db_stored = fst (upsert_messages db_authed ''2024-01-01T10:00:05+00:00'' [normalize_msg raw_a])"

definition w_unparsable :: "nat world" where
  "w_unparsable = w0\<lparr>fromisoformat := (\<lambda>s. None)\<rparr>"

text \<open>Histories in which the mark-read handler does not run.\<close>

fun no_mark_read :: "'dt event list \<Rightarrow> bool" where
  "no_mark_read [] = True"
| "no_mark_read (MarkRead timestamp now # evs) = False"
| "no_mark_read (ev # evs) = no_mark_read evs"

text \<open>Two normalised messages, the second created after the first.\<close>

definition msg_a :: message where
  "msg_a = normalize_msg raw_a"

definition msg_b :: message where
  "msg_b = \<lparr>msg_id = ''spaces/S/messages/b'', sender_name = ''Bob'', sender_email = Some ''bob@example.org'',
            msg_text = ''hi'', created_at = ''2024-01-01T11:30:00.000000Z''\<rparr>"



text \<open>
  The binary64 numbers nearest to 0.1 and to 600.1, and a world whose monotonic clock reads
  the latter.
\<close>

definition double_0_1 :: real where
  "double_0_1 = 3602879701896397 / 36028797018963968"

definition double_600_1 :: real where
  "double_600_1 = 5278535422627021 / 8796093022208"

definition w_boundary :: "nat world" where
  "w_boundary = w0\<lparr>monotonic := double_600_1\<rparr>"

text \<open>
  A message that the remote returns without \<^verbatim>\<open>createTime\<close>, the store once that
  message is in it, and a world whose remote answers an unfiltered list request with the
  message \<open>raw_a\<close> and a filtered one with nothing.
\<close>

definition raw_untimed :: raw_message where
  "raw_untimed = \<lparr>raw_name = Some ''spaces/S/messages/x'', raw_displayName = Some ''Ada'',
            raw_email = None, raw_text = Some ''hello'', raw_createTime = None\<rparr>"

definition db_untimed :: Database where
  "db_untimed =
     fst (upsert_messages db_authed ''2024-01-01T10:00:05+00:00'' [normalize_msg raw_untimed])"

definition w_filtering :: "nat world" where
  "w_filtering =
     w0\<lparr>remote_list :=
          (\<lambda>r. case filter_arg r of NoFilter \<Rightarrow> [Inr [raw_a]] | CreateTimeGt t \<Rightarrow> [Inr []])\<rparr>"

section \<open>The instant a creation timestamp denotes\<close>

text \<open>
  The Chat API renders \<^verbatim>\<open>createTime\<close> in RFC 3339 with the UTC designator:
  \<^verbatim>\<open>YYYY-MM-DDTHH:MM:SS\<close>, an optional fraction of a second, and \<^verbatim>\<open>Z\<close>.
  \<open>instant_of\<close> reads such a text as the pair of its first 19 characters, whose order
  as texts of fixed-width fields is their order in time, and the fraction of a second;
  \<open>earlier\<close> is the order of the instants. This is the order the claims call the order of
  timestamps; the store itself never computes it.
\<close>

fun digits_value :: "string \<Rightarrow> nat \<Rightarrow> nat option" where
  "digits_value [] acc = Some acc"
| "digits_value (c # cs) acc =
     (let n = (of_char c :: nat)
      in if 48 \<le> n \<and> n \<le> 57 then digits_value cs (10 * acc + (n - 48)) else None)"

definition instant_of :: "string \<Rightarrow> (string \<times> real) option" where
  "instant_of s =
     (if length s < 20 \<or> last s \<noteq> CHR ''Z'' then None
      else (let fraction = butlast (drop 19 s)
            in case fraction of
                 [] \<Rightarrow> Some (take 19 s, 0)
               | c # ds \<Rightarrow>
                   if c = CHR ''.'' \<and> ds \<noteq> []
                   then (case digits_value ds 0 of
                           None \<Rightarrow> None
                         | Some n \<Rightarrow> Some (take 19 s, real n / 10 ^ length ds))
                   else None))"

definition earlier :: "string \<Rightarrow> string \<Rightarrow> bool" where
  "earlier a b =
     (case (instant_of a, instant_of b) of
        (Some (p, f), Some (q, g)) \<Rightarrow> p < q \<or> (p = q \<and> f < g)
      | _ \<Rightarrow> False)"

text \<open>
  Two messages created half a second apart, the first on a whole second, so that its text
  carries no fraction.
\<close>

definition msg_whole :: message where
  "msg_whole = \<lparr>msg_id = ''spaces/S/messages/w'', sender_name = ''Ada'', sender_email = Some [],
            msg_text = ''first'', created_at = ''2024-01-01T10:00:00Z''\<rparr>"

definition msg_half :: message where
  "msg_half = \<lparr>msg_id = ''spaces/S/messages/h'', sender_name = ''Ada'', sender_email = Some [],
            msg_text = ''second'', created_at = ''2024-01-01T10:00:00.500000Z''\<rparr>"

section \<open>Float subtraction on concrete readings\<close>

lemma ilog2_numeral [simp]:
  "ilog2 (numeral k) = (if numeral k < (2::nat) then 0 else Suc (ilog2 (numeral k div 2)))"
  by (rule ilog2.simps)

lemma ilog2_small [simp]: "ilog2 0 = 0" "ilog2 1 = 0" "ilog2 (Suc 0) = 0"
  by (simp_all add: ilog2.simps)

lemmas float_defs = float_sub_def double_of_def exponent_of_def pow2_def round_half_even_def
  Let_def

lemma float_sub_700_1: "float_sub 700 1 = 699"
  by (simp add: float_defs)

lemma float_sub_700_800: "float_sub 700 800 = - 100"
  by (simp add: float_defs)

lemma float_sub_boundary: "float_sub double_600_1 double_0_1 = 600"
  by (simp add: float_defs double_600_1_def double_0_1_def)

lemma exact_boundary: "double_600_1 - double_0_1 = 600 + 819 / 36028797018963968"
  by (simp add: double_600_1_def double_0_1_def)

section \<open>The state machine\<close>

lemma touch_mode: "mode (touch now p) = ACTIVE"
  by (simp add: touch_def Let_def)

lemma touch_signal: "last_skill_touch (touch now p) = now"
  by (simp add: touch_def Let_def)

lemma tick_poller:
  "poller (after_tick (tick cfg w s)) =
     fst (decay_check cfg (monotonic w) (poller s) (current_interval cfg (poller s)))"
  by (simp add: tick_def Let_def split: prod.splits sum.splits)

lemma tick_slept:
  "slept (tick cfg w s) =
     snd (decay_check cfg (monotonic w) (poller s) (current_interval cfg (poller s)))"
  by (simp add: tick_def Let_def split: prod.splits sum.splits)

lemma run_snoc: "run cfg s (evs @ [ev]) = step cfg (run cfg s evs) ev"
  by (simp add: run_def)

lemma run_one_touch:
  "poller (run cfg \<lparr>poller = Poller_init, db = d\<rparr> [Touch now]) =
     \<lparr>mode = ACTIVE, last_skill_touch = now\<rparr>"
  by (simp add: run_def touch_def Poller_init_def Let_def)

lemma decay_check_eq:
  "decay_check cfg now p i =
     (if decay_due cfg now p then (p\<lparr>mode := IDLE\<rparr>, POLL_IDLE_INTERVAL cfg) else (p, i))"
  by (simp add: decay_check_def decay_due_def Let_def)

lemma tick_idle:
  "mode (poller s) = IDLE \<Longrightarrow>
     poller (after_tick (tick cfg w s)) = poller s \<and> slept (tick cfg w s) = POLL_IDLE_INTERVAL cfg"
  by (simp add: tick_poller tick_slept decay_check_def current_interval_def)

subsection \<open>The invariant of the poller\<close>

lemma touched_touch: "0 < now \<Longrightarrow> touched (touch now p)"
  by (simp add: touched_def touch_mode touch_signal)

lemma touched_decay: "touched p \<Longrightarrow> touched (fst (decay_check cfg now p i))"
  by (simp add: touched_def decay_check_def Let_def)

lemma touched_step:
  "touched (poller s) \<Longrightarrow> clock_positive [ev] \<Longrightarrow> touched (poller (step cfg s ev))"
  by (cases ev) (simp_all add: clock_positive_def touched_touch tick_poller touched_decay)

lemma clock_positive_Cons:
  "clock_positive (ev # evs) = (clock_positive [ev] \<and> clock_positive evs)"
  by (cases ev) (simp_all add: clock_positive_def)

lemma touched_run:
  "touched (poller s) \<Longrightarrow> clock_positive evs \<Longrightarrow> touched (poller (run cfg s evs))"
proof (induction evs arbitrary: s)
  case Nil
  then show ?case by (simp add: run_def)
next
  case (Cons ev evs)
  from Cons.prems have "touched (poller (step cfg s ev))" and "clock_positive evs"
    using clock_positive_Cons [of ev evs] by (simp_all add: touched_step)
  then have "touched (poller (run cfg (step cfg s ev) evs))"
    by (rule Cons.IH)
  then show ?case by (simp add: run_def)
qed

lemma touched_init: "touched Poller_init"
  by (simp add: touched_def Poller_init_def)

lemma leaves_active:
  assumes "mode (poller s) = ACTIVE" and "mode (poller (step cfg s ev)) \<noteq> ACTIVE"
  shows "\<exists>w. ev = Tick w \<and> decay_due cfg (monotonic w) (poller s)"
proof (cases ev)
  case (Touch now)
  with assms show ?thesis by (simp add: touch_mode)
next
  case (Tick w)
  with assms show ?thesis
    by (auto simp add: tick_poller decay_check_eq split: if_splits)
next
  case (MarkRead ts now)
  with assms show ?thesis by simp
qed

subsection \<open>Touch\<close>

text \<open>
  Claim C1. Whatever happened before (any history of touches, loop iterations and mark-read
  calls from any state), right after a touch the mode is ACTIVE and the activity signal is
  the clock reading of that touch; the touch leaves the store alone. A second touch
  overrides the first completely, and a touch on an ACTIVE poller changes only the signal.
\<close>

theorem touch_makes_active:
  "mode (poller (run cfg s (evs @ [Touch now]))) = ACTIVE
   \<and> last_skill_touch (poller (run cfg s (evs @ [Touch now]))) = now
   \<and> db (run cfg s (evs @ [Touch now])) = db (run cfg s evs)
   \<and> touch now' (touch now p) = touch now' p
   \<and> (mode p = ACTIVE \<longrightarrow> touch now p = p\<lparr>last_skill_touch := now\<rparr>)"
  by (simp add: run_snoc touch_mode touch_signal touch_def Let_def)

theorem touch_makes_active_witness:
  "mode \<lparr>mode = ACTIVE, last_skill_touch = 3\<rparr> = ACTIVE
   \<and> touch 7 \<lparr>mode = ACTIVE, last_skill_touch = 3\<rparr> = \<lparr>mode = ACTIVE, last_skill_touch = 7\<rparr>
   \<and> mode (poller (run default_config sidecar_init ([Touch 1, Tick w0] @ [Touch 800]))) = ACTIVE"
  using touch_makes_active [where cfg = default_config and s = sidecar_init
      and evs = "[Touch 1, Tick w0]" and now = 800
      and p = "\<lparr>mode = ACTIVE, last_skill_touch = 3\<rparr>"]
    touch_makes_active [where evs = "[] :: nat event list" and now = 7
      and p = "\<lparr>mode = ACTIVE, last_skill_touch = 3\<rparr>"]
  by simp

subsection \<open>Decay\<close>

text \<open>
  Claim C2, as the code has it. In a state the sidecar reaches from its start (any store, a
  fresh poller) under a positive monotonic clock: if the poller is ACTIVE and the elapsed
  time the loop computes, the float difference of its clock reading and the last touch,
  exceeds POLL_DECAY_TIMEOUT, the iteration leaves the mode IDLE and sleeps
  POLL_IDLE_INTERVAL. From any state, an event that takes the mode out of ACTIVE is a loop
  iteration whose decay check fired; and an iteration that starts IDLE stays IDLE and sleeps
  POLL_IDLE_INTERVAL.
\<close>

theorem decay_after_timeout:
  "(clock_positive evs
      \<and> mode (poller (run cfg \<lparr>poller = Poller_init, db = d\<rparr> evs)) = ACTIVE
      \<and> real_of_int (POLL_DECAY_TIMEOUT cfg)
           < float_sub (monotonic w)
               (last_skill_touch (poller (run cfg \<lparr>poller = Poller_init, db = d\<rparr> evs)))
    \<longrightarrow> mode (poller (after_tick (tick cfg w (run cfg \<lparr>poller = Poller_init, db = d\<rparr> evs)))) = IDLE
        \<and> slept (tick cfg w (run cfg \<lparr>poller = Poller_init, db = d\<rparr> evs)) = POLL_IDLE_INTERVAL cfg)
   \<and> (mode (poller s) = ACTIVE \<and> mode (poller (step cfg s ev)) \<noteq> ACTIVE
        \<longrightarrow> (\<exists>w'. ev = Tick w' \<and> 0 < last_skill_touch (poller s)
                \<and> real_of_int (POLL_DECAY_TIMEOUT cfg)
                     < float_sub (monotonic w') (last_skill_touch (poller s))))
   \<and> (mode (poller s') = IDLE
        \<longrightarrow> mode (poller (after_tick (tick cfg w s'))) = IDLE
            \<and> slept (tick cfg w s') = POLL_IDLE_INTERVAL cfg)"
proof (intro conjI impI)
  let ?s = "run cfg \<lparr>poller = Poller_init, db = d\<rparr> evs"
  assume a: "clock_positive evs \<and> mode (poller ?s) = ACTIVE
      \<and> real_of_int (POLL_DECAY_TIMEOUT cfg)
           < float_sub (monotonic w) (last_skill_touch (poller ?s))"
  then have "touched (poller ?s)"
    by (simp add: touched_run touched_init)
  with a have due: "decay_due cfg (monotonic w) (poller ?s)"
    by (simp add: touched_def decay_due_def)
  show "mode (poller (after_tick (tick cfg w ?s))) = IDLE"
    using due by (simp add: tick_poller decay_check_eq)
  show "slept (tick cfg w ?s) = POLL_IDLE_INTERVAL cfg"
    using due by (simp add: tick_slept decay_check_eq)
next
  assume "mode (poller s) = ACTIVE \<and> mode (poller (step cfg s ev)) \<noteq> ACTIVE"
  then show "\<exists>w'. ev = Tick w' \<and> 0 < last_skill_touch (poller s)
      \<and> real_of_int (POLL_DECAY_TIMEOUT cfg)
           < float_sub (monotonic w') (last_skill_touch (poller s))"
    using leaves_active [of s cfg ev] by (auto simp add: decay_due_def)
next
  assume "mode (poller s') = IDLE"
  then show "mode (poller (after_tick (tick cfg w s'))) = IDLE"
    and "slept (tick cfg w s') = POLL_IDLE_INTERVAL cfg"
    by (simp_all add: tick_idle)
qed

theorem decay_after_timeout_witness:
  "clock_positive [Touch 1 :: nat event]
   \<and> mode (poller (run default_config \<lparr>poller = Poller_init, db = Database_init\<rparr>
        [Touch 1 :: nat event])) = ACTIVE
   \<and> float_sub (monotonic w0) (last_skill_touch (poller (run default_config
        \<lparr>poller = Poller_init, db = Database_init\<rparr> [Touch 1 :: nat event]))) = 699
   \<and> POLL_DECAY_TIMEOUT default_config = 600
   \<and> mode (poller (after_tick (tick default_config w0
         (run default_config \<lparr>poller = Poller_init, db = Database_init\<rparr> [Touch 1 :: nat event])))) = IDLE
   \<and> slept (tick default_config w0
         (run default_config \<lparr>poller = Poller_init, db = Database_init\<rparr> [Touch 1 :: nat event])) = 14400
   \<and> mode (poller sidecar_init) = IDLE
   \<and> slept (tick default_config w0 sidecar_init) = 14400
   \<and> (\<exists>w'. Tick w0 = Tick w' \<and> 600 < float_sub (monotonic w') 1)"
proof -
  let ?s = "run default_config \<lparr>poller = Poller_init, db = Database_init\<rparr> [Touch 1 :: nat event]"
  have c: "clock_positive [Touch 1 :: nat event]"
    by (simp add: clock_positive_def)
  have p: "poller ?s = \<lparr>mode = ACTIVE, last_skill_touch = 1\<rparr>"
    by (simp add: run_one_touch)
  have m: "monotonic w0 = 700"
    by (simp add: w0_def)
  have f: "float_sub (monotonic w0) (last_skill_touch (poller ?s)) = 699"
    unfolding p m by (simp add: float_sub_700_1)
  have t: "real_of_int (POLL_DECAY_TIMEOUT default_config)
      < float_sub (monotonic w0) (last_skill_touch (poller ?s))"
    unfolding f by (simp add: default_config_def)
  have i: "mode (poller sidecar_init) = IDLE"
    by (simp add: sidecar_init_def Poller_init_def)
  note inst = decay_after_timeout [where evs = "[Touch 1 :: nat event]" and cfg = default_config
      and d = Database_init and w = w0 and s = ?s and ev = "Tick w0" and s' = sidecar_init]
  from inst c p t have r: "mode (poller (after_tick (tick default_config w0 ?s))) = IDLE
      \<and> slept (tick default_config w0 ?s) = POLL_IDLE_INTERVAL default_config"
    by simp
  then have n: "mode (poller ?s) = ACTIVE \<and> mode (poller (step default_config ?s (Tick w0))) \<noteq> ACTIVE"
    using p by simp
  with inst have e: "\<exists>w'. Tick w0 = Tick w' \<and> 0 < last_skill_touch (poller ?s)
      \<and> real_of_int (POLL_DECAY_TIMEOUT default_config)
           < float_sub (monotonic w') (last_skill_touch (poller ?s))"
    by blast
  from inst i have l: "mode (poller (after_tick (tick default_config w0 sidecar_init))) = IDLE
      \<and> slept (tick default_config w0 sidecar_init) = POLL_IDLE_INTERVAL default_config"
    by blast
  show ?thesis
    using c p f r e i l by (simp add: default_config_def)
qed

text \<open>
  Claim C2 as stated fails at the edge of the timeout. A touch reads the clock at the float
  0.1 and the loop reads it at the float 600.1: the two readings are more than 600 seconds
  apart, but their float difference is 600.0, which does not exceed POLL_DECAY_TIMEOUT, so
  the iteration leaves the mode ACTIVE and sleeps POLL_ACTIVE_INTERVAL.
\<close>

theorem no_decay_at_rounded_timeout:
  "clock_positive [Touch double_0_1 :: nat event]
   \<and> mode (poller (run default_config sidecar_init [Touch double_0_1 :: nat event])) = ACTIVE
   \<and> last_skill_touch (poller (run default_config sidecar_init [Touch double_0_1 :: nat event]))
       = double_0_1
   \<and> real_of_int (POLL_DECAY_TIMEOUT default_config) < monotonic w_boundary - double_0_1
   \<and> mode (poller (after_tick (tick default_config w_boundary
        (run default_config sidecar_init [Touch double_0_1 :: nat event])))) = ACTIVE
   \<and> slept (tick default_config w_boundary
        (run default_config sidecar_init [Touch double_0_1 :: nat event])) = 30"
proof -
  let ?s = "run default_config sidecar_init [Touch double_0_1 :: nat event]"
  have p: "poller ?s = \<lparr>mode = ACTIVE, last_skill_touch = double_0_1\<rparr>"
    by (simp add: sidecar_init_def run_one_touch)
  have pos: "0 < double_0_1"
    by (simp add: double_0_1_def)
  have m: "monotonic w_boundary = double_600_1"
    by (simp add: w_boundary_def)
  have x: "real_of_int (POLL_DECAY_TIMEOUT default_config) < monotonic w_boundary - double_0_1"
    unfolding m exact_boundary by (simp add: default_config_def)
  have d: "decay_check default_config (monotonic w_boundary) (poller ?s)
      (current_interval default_config (poller ?s)) = (poller ?s, 30)"
    unfolding p m
    by (simp add: decay_check_def float_sub_boundary current_interval_def default_config_def)
  show ?thesis
    using pos x by (simp add: clock_positive_def tick_poller tick_slept d) (simp add: p)
qed

text \<open>
  Claim C9. A fresh poller is IDLE with the activity signal at zero, and in every state
  reached from it by touches, loop iterations and mark-read calls under a positive monotonic
  clock, an ACTIVE mode comes with a strictly positive activity signal, which is the guard
  of the decay check.
\<close>

theorem active_implies_touched:
  assumes "clock_positive evs"
  shows "mode Poller_init = IDLE \<and> last_skill_touch Poller_init = 0
    \<and> (mode (poller (run cfg \<lparr>poller = Poller_init, db = d\<rparr> evs)) = ACTIVE
         \<longrightarrow> 0 < last_skill_touch (poller (run cfg \<lparr>poller = Poller_init, db = d\<rparr> evs)))"
proof -
  have "touched (poller (run cfg \<lparr>poller = Poller_init, db = d\<rparr> evs))"
    using assms by (simp add: touched_run touched_init)
  then show ?thesis
    by (simp add: touched_def Poller_init_def split: if_splits)
qed

theorem active_implies_touched_witness:
  "clock_positive [Touch 1, Tick w0, Touch 800, Tick w0]
   \<and> mode (poller (run default_config \<lparr>poller = Poller_init, db = Database_init\<rparr> [Touch 1, Tick w0, Touch 800, Tick w0])) = ACTIVE
   \<and> 0 < last_skill_touch (poller (run default_config \<lparr>poller = Poller_init, db = Database_init\<rparr> [Touch 1, Tick w0, Touch 800, Tick w0]))"
proof -
  have c: "clock_positive [Touch 1, Tick w0, Touch 800, Tick w0 :: nat event]"
    by (simp add: clock_positive_def)
  have m: "mode (poller (run default_config \<lparr>poller = Poller_init, db = Database_init\<rparr> [Touch 1, Tick w0, Touch 800, Tick w0])) = ACTIVE"
    by (simp add: run_def tick_poller decay_check_def touch_def Poller_init_def w0_def
        default_config_def current_interval_def float_sub_700_1 float_sub_700_800 Let_def)
  show ?thesis
    using c m active_implies_touched [OF c, of default_config Database_init] by simp
qed

section \<open>Failures of a poll\<close>

lemma poll_fails: "outcome (poll_fn w_http_error db_authed) = Inl HttpError"
  by (simp add: poll_fn_def latest_message_time_def parse_if_truthy_def list_messages_def
      get_service_def load_credentials_def get_auth_def db_authed_def Database_init_def
      w_http_error_def w0_def Let_def)

text \<open>
  Claim C3. When the poll of an iteration raises, the exception ends in the iteration's
  \<^verbatim>\<open>log.exception\<close>: the iteration completes, with the poller and the sleep interval
  that the decay check alone determined. The mode is IDLE if the decay fired and the mode
  before otherwise; an iteration in a world with the same monotonic clock whose poll does
  anything else leaves the same poller, sleeps the same interval, and gives the next
  iteration the same interval; and the loop goes on with the rest of the history.
\<close>

theorem failed_poll_is_swallowed:
  assumes "outcome (poll_fn w (db s)) = Inl e"
  shows "logged (tick cfg w s) = Some e
    \<and> poller (after_tick (tick cfg w s))
        = fst (decay_check cfg (monotonic w) (poller s) (current_interval cfg (poller s)))
    \<and> slept (tick cfg w s)
        = snd (decay_check cfg (monotonic w) (poller s) (current_interval cfg (poller s)))
    \<and> (if decay_due cfg (monotonic w) (poller s)
        then mode (poller (after_tick (tick cfg w s))) = IDLE
        else mode (poller (after_tick (tick cfg w s))) = mode (poller s))
    \<and> (monotonic w' = monotonic w
        \<longrightarrow> poller (after_tick (tick cfg w' s)) = poller (after_tick (tick cfg w s))
          \<and> slept (tick cfg w' s) = slept (tick cfg w s)
          \<and> slept (tick cfg w2 (after_tick (tick cfg w' s)))
              = slept (tick cfg w2 (after_tick (tick cfg w s))))
    \<and> run cfg s (Tick w # evs) = run cfg (after_tick (tick cfg w s)) evs
    \<and> sleeps cfg s (Tick w # evs) = slept (tick cfg w s) # sleeps cfg (after_tick (tick cfg w s)) evs"
proof -
  have l: "logged (tick cfg w s) = Some e"
    using assms by (simp add: tick_def Let_def split: prod.splits)
  have m: "if decay_due cfg (monotonic w) (poller s)
        then mode (poller (after_tick (tick cfg w s))) = IDLE
        else mode (poller (after_tick (tick cfg w s))) = mode (poller s)"
    by (simp add: tick_poller decay_check_eq)
  have i: "monotonic w' = monotonic w
        \<longrightarrow> poller (after_tick (tick cfg w' s)) = poller (after_tick (tick cfg w s))
          \<and> slept (tick cfg w' s) = slept (tick cfg w s)
          \<and> slept (tick cfg w2 (after_tick (tick cfg w' s)))
              = slept (tick cfg w2 (after_tick (tick cfg w s)))"
    by (simp add: tick_poller tick_slept)
  have r: "run cfg s (Tick w # evs) = run cfg (after_tick (tick cfg w s)) evs"
    by (simp add: run_def)
  show ?thesis
    using l m i r by (simp add: tick_poller tick_slept)
qed

theorem failed_poll_is_swallowed_witness:
  "outcome (poll_fn w_http_error (db \<lparr>poller = Poller_init, db = db_authed\<rparr>)) = Inl HttpError
   \<and> logged (tick default_config w_http_error \<lparr>poller = Poller_init, db = db_authed\<rparr>) = Some HttpError
   \<and> mode (poller (after_tick (tick default_config w_http_error \<lparr>poller = Poller_init, db = db_authed\<rparr>))) = IDLE
   \<and> slept (tick default_config w_http_error \<lparr>poller = Poller_init, db = db_authed\<rparr>) = 14400
   \<and> slept (tick default_config w0 \<lparr>poller = Poller_init, db = db_authed\<rparr>) = 14400"
proof -
  let ?s = "\<lparr>poller = Poller_init, db = db_authed\<rparr>"
  have f: "outcome (poll_fn w_http_error (db ?s)) = Inl HttpError"
    by (simp add: poll_fails)
  have eq: "monotonic w0 = monotonic w_http_error"
    by (simp add: w_http_error_def)
  have d: "decay_check default_config (monotonic w_http_error) (poller ?s)
      (current_interval default_config (poller ?s)) = (Poller_init, 14400)"
    by (simp add: decay_check_def current_interval_def Poller_init_def default_config_def)
  show ?thesis
    using f eq d failed_poll_is_swallowed [OF f, where cfg = default_config and w' = w0
        and ?w2.0 = w0 and evs = "[]"]
    by (simp add: Poller_init_def)
qed


section \<open>What a poll and an iteration change in the store\<close>

lemma insert_or_ignore_frame:
  "state (insert_or_ignore d r) = state d" "auth (insert_or_ignore d r) = auth d"
  by (simp_all add: insert_or_ignore_def)

lemma upsert_loop_frame:
  "state (fst (upsert_loop now msgs d n)) = state d \<and> auth (fst (upsert_loop now msgs d n)) = auth d"
  by (induction msgs arbitrary: d n) (simp_all add: Let_def insert_or_ignore_frame)

lemma upsert_messages_state: "state (fst (upsert_messages d now msgs)) = state d"
  by (simp add: upsert_messages_def upsert_loop_frame)

lemma set_auth_frame:
  "state (set_auth d k v) = state d" "messages (set_auth d k v) = messages d"
  by (simp_all add: set_auth_def)

lemma load_credentials_frame:
  "state (snd (load_credentials w d)) = state d \<and> messages (snd (load_credentials w d)) = messages d"
  by (simp add: load_credentials_def Let_def set_auth_frame split: sum.splits option.splits prod.splits)

lemma get_service_frame:
  "state (snd (get_service w d)) = state d \<and> messages (snd (get_service w d)) = messages d"
  using load_credentials_frame [of w d]
  by (auto simp add: get_service_def split: prod.splits sum.splits option.splits)

lemma list_messages_frame:
  "state (snd (list_messages w d after n)) = state d
   \<and> messages (snd (list_messages w d after n)) = messages d"
  using get_service_frame [of w d]
  by (auto simp add: list_messages_def Let_def split: prod.splits sum.splits)

lemma poll_fn_state: "state (db_after (poll_fn w d)) = state d"
proof (cases "parse_if_truthy w (latest_message_time d)")
  case (Inl e)
  then show ?thesis by (simp add: poll_fn_def)
next
  case (Inr after)
  obtain r d1 where l: "list_messages w d after 100 = (r, d1)"
    by (cases "list_messages w d after 100")
  then have "state d1 = state d"
    using list_messages_frame [of w d after 100] by simp
  with Inr l show ?thesis
    by (simp add: poll_fn_def case_prod_beta upsert_messages_state split: sum.splits)
qed

lemma poll_fn_failed_messages:
  "outcome (poll_fn w d) = Inl e \<Longrightarrow> messages (db_after (poll_fn w d)) = messages d"
proof (cases "parse_if_truthy w (latest_message_time d)")
  case (Inl e')
  then show ?thesis by (simp add: poll_fn_def)
next
  case (Inr after)
  assume a: "outcome (poll_fn w d) = Inl e"
  obtain r d1 where l: "list_messages w d after 100 = (r, d1)"
    by (cases "list_messages w d after 100")
  then have "messages d1 = messages d"
    using list_messages_frame [of w d after 100] by simp
  with Inr l a show ?thesis
    by (simp add: poll_fn_def split: sum.splits prod.splits if_splits)
qed

lemma tick_state:
  "state (db (after_tick (tick cfg w s))) =
     (case outcome (poll_fn w (db s)) of
        Inl e \<Rightarrow> state (db s)
      | Inr n \<Rightarrow> (state (db s))(''last_poll_at'' \<mapsto> utcnow_poll w))"
  by (simp add: tick_def Let_def set_state_def poll_fn_state split: prod.splits sum.splits)

lemma tick_logged:
  "logged (tick cfg w s) = (case outcome (poll_fn w (db s)) of Inl e \<Rightarrow> Some e | Inr n \<Rightarrow> None)"
  by (simp add: tick_def Let_def split: prod.splits sum.splits)

lemma tick_messages:
  "messages (db (after_tick (tick cfg w s))) = messages (db_after (poll_fn w (db s)))"
  by (simp add: tick_def Let_def set_state_def split: prod.splits sum.splits)

lemma tick_fetched: "fetched_with (tick cfg w s) = fetch_calls (poll_fn w (db s))"
  by (simp add: tick_def Let_def split: prod.splits sum.splits)

lemma poll_fn_fetched:
  assumes "parse_if_truthy w (latest_message_time d) = Inr after"
    and "list_messages w d after 100 = (Inr msgs, d1)"
  shows "outcome (poll_fn w d) = Inr (snd (upsert_messages d1 (utcnow_upsert w) msgs))"
    and "db_after (poll_fn w d) = fst (upsert_messages d1 (utcnow_upsert w) msgs)"
  using assms
  by (simp_all add: poll_fn_def upsert_messages_def split: prod.splits)

lemma poll_fn_runtime_error:
  assumes "parse_if_truthy w (latest_message_time d) = Inr after"
    and "list_messages w d after 100 = (Inl RuntimeError, d1)"
  shows "outcome (poll_fn w d) = Inr 0" and "db_after (poll_fn w d) = d1"
  using assms by (simp_all add: poll_fn_def)

lemma poll_fn_other_error:
  assumes "parse_if_truthy w (latest_message_time d) = Inr after"
    and "list_messages w d after 100 = (Inl e, d1)" and "e \<noteq> RuntimeError"
  shows "outcome (poll_fn w d) = Inl e" and "db_after (poll_fn w d) = d1"
  using assms by (simp_all add: poll_fn_def)

lemma poll_fn_parse_error:
  assumes "parse_if_truthy w (latest_message_time d) = Inl e"
  shows "poll_fn w d = \<lparr>outcome = Inl e, db_after = d, fetch_calls = []\<rparr>"
  using assms by (simp add: poll_fn_def)


section \<open>Recording the last poll\<close>

text \<open>The definitions that evaluating a poll on a concrete world and store unfolds.\<close>

lemmas model_defs = poll_fn_def latest_message_time_def parse_if_truthy_def list_messages_def
  get_service_def load_credentials_def get_auth_def get_state_def set_state_def
  Database_init_def upsert_messages_def insert_or_ignore_def row_of_def normalize_msg_def
  get_default_def Let_def

lemma not_authenticated:
  "\<not> truthy (get_auth d ''refresh_token'') \<Longrightarrow> list_messages w d after n = (Inl RuntimeError, d)"
  by (simp add: list_messages_def get_service_def load_credentials_def)

text \<open>
  Claim C8, as the code has it. An iteration writes \<^verbatim>\<open>last_poll_at\<close> exactly when
  \<^verbatim>\<open>poll_fn\<close> returns without raising, and changes nothing else in the state table;
  the poller and the sleep interval do not depend on the poll. \<^verbatim>\<open>poll_fn\<close> returns
  when the fetch returns messages, which are then upserted, and also when the fetch raises
  RuntimeError, which is what a store without a refresh token makes it raise: then no
  message is stored, nothing is logged and \<^verbatim>\<open>last_poll_at\<close> is written all the same.
  Any other exception of the fetch, and a latest timestamp that does not parse, is logged by
  the iteration and leaves the state table and the messages as they were.
\<close>

theorem tick_records_poll:
  "state (db (after_tick (tick cfg w s)))
     = (case outcome (poll_fn w (db s)) of
          Inl e \<Rightarrow> state (db s)
        | Inr n \<Rightarrow> (state (db s))(''last_poll_at'' \<mapsto> utcnow_poll w))
   \<and> logged (tick cfg w s)
       = (case outcome (poll_fn w (db s)) of Inl e \<Rightarrow> Some e | Inr n \<Rightarrow> None)
   \<and> poller (after_tick (tick cfg w s))
       = fst (decay_check cfg (monotonic w) (poller s) (current_interval cfg (poller s)))
   \<and> slept (tick cfg w s)
       = snd (decay_check cfg (monotonic w) (poller s) (current_interval cfg (poller s)))
   \<and> (parse_if_truthy w (latest_message_time (db s)) = Inr after
        \<and> list_messages w (db s) after 100 = (Inr msgs, d1)
      \<longrightarrow> outcome (poll_fn w (db s)) = Inr (snd (upsert_messages d1 (utcnow_upsert w) msgs))
        \<and> messages (db (after_tick (tick cfg w s)))
            = messages (fst (upsert_messages d1 (utcnow_upsert w) msgs))
        \<and> get_state (db (after_tick (tick cfg w s))) ''last_poll_at'' = Some (utcnow_poll w))
   \<and> (\<not> truthy (get_auth (db s) ''refresh_token'')
      \<longrightarrow> list_messages w (db s) after 100 = (Inl RuntimeError, db s))
   \<and> (parse_if_truthy w (latest_message_time (db s)) = Inr after
        \<and> list_messages w (db s) after 100 = (Inl RuntimeError, d1)
      \<longrightarrow> outcome (poll_fn w (db s)) = Inr 0
        \<and> logged (tick cfg w s) = None
        \<and> messages (db (after_tick (tick cfg w s))) = messages (db s)
        \<and> get_state (db (after_tick (tick cfg w s))) ''last_poll_at'' = Some (utcnow_poll w))
   \<and> (parse_if_truthy w (latest_message_time (db s)) = Inr after
        \<and> list_messages w (db s) after 100 = (Inl e, d1) \<and> e \<noteq> RuntimeError
      \<longrightarrow> logged (tick cfg w s) = Some e
        \<and> state (db (after_tick (tick cfg w s))) = state (db s)
        \<and> messages (db (after_tick (tick cfg w s))) = messages (db s))
   \<and> (parse_if_truthy w (latest_message_time (db s)) = Inl e
      \<longrightarrow> logged (tick cfg w s) = Some e
        \<and> db (after_tick (tick cfg w s)) = db s
        \<and> fetched_with (tick cfg w s) = [])"
proof (intro conjI impI)
  assume a: "parse_if_truthy w (latest_message_time (db s)) = Inr after
        \<and> list_messages w (db s) after 100 = (Inr msgs, d1)"
  then have o: "outcome (poll_fn w (db s)) = Inr (snd (upsert_messages d1 (utcnow_upsert w) msgs))"
    and d: "db_after (poll_fn w (db s)) = fst (upsert_messages d1 (utcnow_upsert w) msgs)"
    by (simp_all add: poll_fn_fetched)
  show "outcome (poll_fn w (db s)) = Inr (snd (upsert_messages d1 (utcnow_upsert w) msgs))"
    by (rule o)
  show "messages (db (after_tick (tick cfg w s)))
            = messages (fst (upsert_messages d1 (utcnow_upsert w) msgs))"
    by (simp add: tick_messages d)
  show "get_state (db (after_tick (tick cfg w s))) ''last_poll_at'' = Some (utcnow_poll w)"
    by (simp add: get_state_def tick_state o)
next
  assume "\<not> truthy (get_auth (db s) ''refresh_token'')"
  then show "list_messages w (db s) after 100 = (Inl RuntimeError, db s)"
    by (rule not_authenticated)
next
  assume a: "parse_if_truthy w (latest_message_time (db s)) = Inr after
        \<and> list_messages w (db s) after 100 = (Inl RuntimeError, d1)"
  then have o: "outcome (poll_fn w (db s)) = Inr 0" and d: "db_after (poll_fn w (db s)) = d1"
    by (simp_all add: poll_fn_runtime_error)
  have m: "messages d1 = messages (db s)"
    using a list_messages_frame [of w "db s" after 100] by simp
  show "outcome (poll_fn w (db s)) = Inr 0" by (rule o)
  show "logged (tick cfg w s) = None" by (simp add: tick_logged o)
  show "messages (db (after_tick (tick cfg w s))) = messages (db s)"
    by (simp add: tick_messages d m)
  show "get_state (db (after_tick (tick cfg w s))) ''last_poll_at'' = Some (utcnow_poll w)"
    by (simp add: get_state_def tick_state o)
next
  assume a: "parse_if_truthy w (latest_message_time (db s)) = Inr after
        \<and> list_messages w (db s) after 100 = (Inl e, d1) \<and> e \<noteq> RuntimeError"
  then have o: "outcome (poll_fn w (db s)) = Inl e"
    by (simp add: poll_fn_other_error)
  show "logged (tick cfg w s) = Some e" by (simp add: tick_logged o)
  show "state (db (after_tick (tick cfg w s))) = state (db s)" by (simp add: tick_state o)
  show "messages (db (after_tick (tick cfg w s))) = messages (db s)"
    by (simp add: tick_messages poll_fn_failed_messages [OF o])
next
  assume a: "parse_if_truthy w (latest_message_time (db s)) = Inl e"
  then have p: "poll_fn w (db s) = \<lparr>outcome = Inl e, db_after = db s, fetch_calls = []\<rparr>"
    by (rule poll_fn_parse_error)
  show "logged (tick cfg w s) = Some e" by (simp add: tick_logged p)
  show "db (after_tick (tick cfg w s)) = db s"
    by (simp add: tick_def p Let_def split: prod.splits)
  show "fetched_with (tick cfg w s) = []" by (simp add: tick_fetched p)
qed (simp_all add: tick_state tick_logged tick_poller tick_slept)


theorem tick_records_poll_witness:
  "parse_if_truthy w_one_message (latest_message_time db_authed) = Inr None
   \<and> list_messages w_one_message db_authed None 100 = (Inr [normalize_msg raw_a], db_authed)
   \<and> map row_id (messages (db (after_tick (tick default_config w_one_message
        \<lparr>poller = Poller_init, db = db_authed\<rparr>)))) = [''spaces/S/messages/a'']
   \<and> get_state (db (after_tick (tick default_config w_one_message
        \<lparr>poller = Poller_init, db = db_authed\<rparr>))) ''last_poll_at''
       = Some ''2024-01-01T00:00:02+00:00''
   \<and> list_messages w_http_error db_authed None 100 = (Inl HttpError, db_authed)
   \<and> HttpError \<noteq> RuntimeError
   \<and> logged (tick default_config w_http_error \<lparr>poller = Poller_init, db = db_authed\<rparr>)
       = Some HttpError
   \<and> state (db (after_tick (tick default_config w_http_error
        \<lparr>poller = Poller_init, db = db_authed\<rparr>))) ''last_poll_at'' = None
   \<and> parse_if_truthy w_unparsable (latest_message_time db_stored) = Inl ValueError
   \<and> logged (tick default_config w_unparsable \<lparr>poller = Poller_init, db = db_stored\<rparr>)
       = Some ValueError
   \<and> fetched_with (tick default_config w_unparsable \<lparr>poller = Poller_init, db = db_stored\<rparr>)
       = []
   \<and> \<not> truthy (get_auth Database_init ''refresh_token'')
   \<and> list_messages w0 Database_init None 100 = (Inl RuntimeError, Database_init)
   \<and> outcome (poll_fn w0 Database_init) = Inr 0"
proof -
  note eval_defs = model_defs db_authed_def db_stored_def raw_a_def w_http_error_def
    w_one_message_def w_unparsable_def w0_def
  let ?s = "\<lparr>poller = Poller_init, db = db_authed\<rparr>"
  have p1: "parse_if_truthy w_one_message (latest_message_time (db ?s)) = Inr None"
    by (simp add: eval_defs)
  have l1: "list_messages w_one_message (db ?s) None 100 = (Inr [normalize_msg raw_a], db_authed)"
    by (simp add: eval_defs)
  have u1: "map row_id (messages (fst (upsert_messages db_authed (utcnow_upsert w_one_message)
      [normalize_msg raw_a]))) = [''spaces/S/messages/a'']"
    by (simp add: eval_defs)
  have n1: "utcnow_poll w_one_message = ''2024-01-01T00:00:02+00:00''"
    by (simp add: eval_defs)
  have p2: "parse_if_truthy w_http_error (latest_message_time (db ?s)) = Inr None"
    by (simp add: eval_defs)
  have l2: "list_messages w_http_error (db ?s) None 100 = (Inl HttpError, db_authed)"
    by (simp add: eval_defs)
  have s2: "state db_authed ''last_poll_at'' = None"
    by (simp add: eval_defs)
  let ?t = "\<lparr>poller = Poller_init, db = db_stored\<rparr>"
  have p3: "parse_if_truthy w_unparsable (latest_message_time (db ?t)) = Inl ValueError"
    by (simp add: eval_defs)
  let ?i = "\<lparr>poller = Poller_init, db = Database_init\<rparr>"
  have a4: "\<not> truthy (get_auth (db ?i) ''refresh_token'')"
    by (simp add: eval_defs)
  have p4: "parse_if_truthy w0 (latest_message_time (db ?i)) = Inr None"
    by (simp add: eval_defs)
  note r1 = tick_records_poll [where cfg = default_config and w = w_one_message and s = ?s
      and after = None and msgs = "[normalize_msg raw_a]" and ?d1.0 = db_authed and e = HttpError]
  note r2 = tick_records_poll [where cfg = default_config and w = w_http_error and s = ?s
      and after = None and e = HttpError and ?d1.0 = db_authed and msgs = "[]"]
  note r3 = tick_records_poll [where cfg = default_config and w = w_unparsable and s = ?t
      and e = ValueError and after = None and ?d1.0 = db_stored and msgs = "[]"]
  note r4 = tick_records_poll [where cfg = default_config and w = w0 and s = ?i
      and after = None and ?d1.0 = "db ?i" and e = HttpError and msgs = "[]"]
  have c1: "map row_id (messages (db (after_tick (tick default_config w_one_message ?s))))
      = [''spaces/S/messages/a'']
    \<and> get_state (db (after_tick (tick default_config w_one_message ?s))) ''last_poll_at''
       = Some ''2024-01-01T00:00:02+00:00''"
  proof -
    from r1 p1 l1 have "messages (db (after_tick (tick default_config w_one_message ?s)))
            = messages (fst (upsert_messages db_authed (utcnow_upsert w_one_message) [normalize_msg raw_a]))"
      and "get_state (db (after_tick (tick default_config w_one_message ?s))) ''last_poll_at''
            = Some (utcnow_poll w_one_message)"
      by blast+
    then show ?thesis using u1 n1 by simp
  qed
  have c2: "logged (tick default_config w_http_error ?s) = Some HttpError
    \<and> state (db (after_tick (tick default_config w_http_error ?s))) ''last_poll_at'' = None"
  proof -
    have "HttpError \<noteq> RuntimeError" by simp
    with r2 p2 l2 have "logged (tick default_config w_http_error ?s) = Some HttpError"
      and "state (db (after_tick (tick default_config w_http_error ?s))) = state (db ?s)"
      by blast+
    then show ?thesis using s2 by simp
  qed
  have c3: "logged (tick default_config w_unparsable ?t) = Some ValueError
    \<and> fetched_with (tick default_config w_unparsable ?t) = []"
    using r3 p3 by blast
  have c4: "list_messages w0 Database_init None 100 = (Inl RuntimeError, Database_init)
    \<and> outcome (poll_fn w0 Database_init) = Inr 0"
  proof -
    from r4 a4 have l4: "list_messages w0 (db ?i) None 100 = (Inl RuntimeError, db ?i)"
      by blast
    with r4 p4 have "outcome (poll_fn w0 (db ?i)) = Inr 0"
      by blast
    with l4 show ?thesis by simp
  qed
  show ?thesis
    using p1 l1 p2 l2 p3 a4 c1 c2 c3 c4 by simp
qed

text \<open>
  Claim C8 as stated fails: on a fresh store (not authenticated) the fetch raises
  RuntimeError, and the iteration records \<^verbatim>\<open>last_poll_at\<close>.
\<close>

theorem unauthenticated_poll_is_recorded:
  "get_auth (db sidecar_init) ''refresh_token'' = None
   \<and> fst (list_messages w0 (db sidecar_init) None 100) = Inl RuntimeError
   \<and> fetched_with (tick default_config w0 sidecar_init) = [None]
   \<and> logged (tick default_config w0 sidecar_init) = None
   \<and> get_state (db sidecar_init) ''last_poll_at'' = None
   \<and> get_state (db (after_tick (tick default_config w0 sidecar_init))) ''last_poll_at''
       = Some ''2024-01-01T00:00:02+00:00''"
  by (simp add: tick_def model_defs w0_def sidecar_init_def decay_check_def
      current_interval_def Poller_init_def)


section \<open>The read marker\<close>

lemma tick_read_marker:
  "get_state (db (after_tick (tick cfg w s))) ''read_marker'' = get_state (db s) ''read_marker''"
  by (simp add: get_state_def tick_state split: sum.splits)

lemma step_read_marker:
  "no_mark_read [ev] \<Longrightarrow>
     get_state (db (step cfg s ev)) ''read_marker'' = get_state (db s) ''read_marker''"
  by (cases ev) (simp_all add: tick_read_marker)

lemma run_read_marker:
  "no_mark_read evs \<Longrightarrow>
     get_state (db (run cfg s evs)) ''read_marker'' = get_state (db s) ''read_marker''"
proof (induction evs arbitrary: s)
  case Nil
  show ?case by (simp add: run_def)
next
  case (Cons ev evs)
  from Cons.prems have one: "no_mark_read [ev]" and rest: "no_mark_read evs"
    by (cases ev; simp)+
  have "get_state (db (run cfg (step cfg s ev) evs)) ''read_marker''
      = get_state (db (step cfg s ev)) ''read_marker''"
    using rest by (rule Cons.IH)
  also have "\<dots> = get_state (db s) ''read_marker''"
    using one by (rule step_read_marker)
  finally show ?case by (simp add: run_def)
qed

text \<open>
  Claim C7. A fresh store has no read marker. \<^verbatim>\<open>mark_read\<close> writes the marker it
  returns, which is the timestamp given, or the current time when none (or an empty one) is
  given. An upsert, a poll and a loop iteration leave the marker as it is, and so does every
  history of touches and iterations without a mark-read call: from a fresh store the marker
  is then still absent.
\<close>

theorem read_marker_frame:
  "get_state Database_init ''read_marker'' = None
   \<and> get_state (fst (mark_read d timestamp now)) ''read_marker''
       = Some (snd (mark_read d timestamp now))
   \<and> snd (mark_read d timestamp now)
       = (case timestamp of None \<Rightarrow> now | Some t \<Rightarrow> if t = [] then now else t)
   \<and> get_state (fst (upsert_messages d now' msgs)) ''read_marker'' = get_state d ''read_marker''
   \<and> get_state (db_after (poll_fn w d)) ''read_marker'' = get_state d ''read_marker''
   \<and> get_state (db (after_tick (tick cfg w s))) ''read_marker'' = get_state (db s) ''read_marker''
   \<and> (no_mark_read evs
        \<longrightarrow> get_state (db (run cfg s evs)) ''read_marker'' = get_state (db s) ''read_marker'')
   \<and> (no_mark_read evs
        \<longrightarrow> get_state (db (run cfg \<lparr>poller = Poller_init, db = Database_init\<rparr> evs)) ''read_marker''
            = None)"
proof -
  have a: "get_state Database_init ''read_marker'' = None"
    by (simp add: get_state_def Database_init_def)
  have b: "get_state (fst (mark_read d timestamp now)) ''read_marker''
       = Some (snd (mark_read d timestamp now))"
    by (simp add: mark_read_def get_state_def set_state_def Let_def)
  have c: "snd (mark_read d timestamp now)
       = (case timestamp of None \<Rightarrow> now | Some t \<Rightarrow> if t = [] then now else t)"
    by (simp add: mark_read_def Let_def split: option.splits)
  have e: "no_mark_read evs
        \<longrightarrow> get_state (db (run cfg \<lparr>poller = Poller_init, db = Database_init\<rparr> evs)) ''read_marker''
            = None"
    using a by (simp add: run_read_marker)
  show ?thesis
    using a b c e
    by (simp add: run_read_marker tick_read_marker)
      (simp add: get_state_def upsert_messages_state poll_fn_state)
qed

theorem read_marker_frame_witness:
  "no_mark_read [Touch 1, Tick w_one_message, Tick w0 :: nat event]
   \<and> get_state (db (run default_config \<lparr>poller = Poller_init, db = Database_init\<rparr>
        [Touch 1, Tick w_one_message, Tick w0])) ''read_marker'' = None
   \<and> get_state (db (run default_config \<lparr>poller = Poller_init, db = Database_init\<rparr>
        [Touch 1, Tick w_one_message, Tick w0, MarkRead None ''2024-01-01T12:00:00+00:00'']))
          ''read_marker'' = Some ''2024-01-01T12:00:00+00:00''"
proof -
  let ?evs = "[Touch 1, Tick w_one_message, Tick w0 :: nat event]"
  let ?s = "\<lparr>poller = Poller_init, db = Database_init\<rparr>"
  have n: "no_mark_read ?evs" by simp
  note f = read_marker_frame [where evs = ?evs and cfg = default_config and s = ?s
      and d = "db (run default_config ?s ?evs)" and timestamp = None
      and now = "''2024-01-01T12:00:00+00:00''"]
  from f n have r: "get_state (db (run default_config ?s ?evs)) ''read_marker'' = None"
    by blast
  let ?d = "db (run default_config ?s ?evs)"
  from f have "get_state (fst (mark_read ?d None ''2024-01-01T12:00:00+00:00'')) ''read_marker''
      = Some (snd (mark_read ?d None ''2024-01-01T12:00:00+00:00''))"
    and "snd (mark_read ?d None ''2024-01-01T12:00:00+00:00'')
      = (case None of None \<Rightarrow> ''2024-01-01T12:00:00+00:00''
         | Some t \<Rightarrow> if t = [] then ''2024-01-01T12:00:00+00:00'' else t)"
    by blast+
  then have "get_state (db (step default_config (run default_config ?s ?evs)
        (MarkRead None ''2024-01-01T12:00:00+00:00''))) ''read_marker''
          = Some ''2024-01-01T12:00:00+00:00''"
    by simp
  then have m: "get_state (db (run default_config ?s
        (?evs @ [MarkRead None ''2024-01-01T12:00:00+00:00''])))
          ''read_marker'' = Some ''2024-01-01T12:00:00+00:00''"
    by (simp only: run_snoc)
  show ?thesis using n r m by simp
qed


section \<open>The latest stored message\<close>

lemma sorted_last_Max:
  fixes ys :: "('a :: linorder) list"
  shows "sorted ys \<Longrightarrow> ys \<noteq> [] \<Longrightarrow> last ys = Max (set ys)"
proof (induction ys)
  case Nil
  then show ?case by simp
next
  case (Cons y ys)
  show ?case
  proof (cases "ys = []")
    case True
    then show ?thesis by simp
  next
    case False
    with Cons have "last ys = Max (set ys)" by simp
    moreover have "y \<le> Max (set ys)"
    proof -
      have h: "hd ys \<in> set ys" using False by simp
      then have "y \<le> hd ys" using Cons.prems by simp
      also have "hd ys \<le> Max (set ys)" using h by simp
      finally show ?thesis .
    qed
    ultimately show ?thesis
      using False by (simp add: max_def)
  qed
qed

lemma latest_message_time_Max:
  "latest_message_time d =
     (if messages d = [] then None else Some (Max (row_created_at ` set (messages d))))"
proof (cases "messages d = []")
  case True
  then show ?thesis by (simp add: latest_message_time_def)
next
  case False
  let ?ys = "sort_key row_created_at (messages d)"
  from False have ne: "?ys \<noteq> []"
    by (metis length_sort length_0_conv)
  then obtain r rs where rv: "rev ?ys = r # rs"
    by (cases "rev ?ys") simp_all
  then have "r = last ?ys"
    using ne by (metis list.sel(1) hd_rev)
  then have "row_created_at r = last (map row_created_at ?ys)"
    using ne by (simp add: last_map)
  also have "\<dots> = Max (set (map row_created_at ?ys))"
    using ne by (intro sorted_last_Max) simp_all
  also have "\<dots> = Max (row_created_at ` set (messages d))"
    by simp
  finally show ?thesis
    using False rv by (simp add: latest_message_time_def)
qed

lemma upsert_two_new:
  assumes "msg_id m1 \<noteq> msg_id m2"
  shows "messages (fst (upsert_messages Database_init now [m1, m2])) = [row_of m1 now, row_of m2 now]"
  using assms by (simp add: upsert_messages_def insert_or_ignore_def Database_init_def row_of_def Let_def)

lemma upsert_one_new:
  "messages (fst (upsert_messages Database_init now [m1])) = [row_of m1 now]"
  by (simp add: upsert_messages_def insert_or_ignore_def Database_init_def Let_def)

lemma upsert_second_new:
  assumes "messages d = [r]" "row_id r \<noteq> msg_id m"
  shows "messages (fst (upsert_messages d now [m])) = [r, row_of m now]"
  using assms by (simp add: upsert_messages_def insert_or_ignore_def row_of_def Let_def)

text \<open>
  Claim C6, as the code has it. \<^verbatim>\<open>latest_message_time\<close> is absent on a store without
  messages and is otherwise the greatest \<^verbatim>\<open>created_at\<close> of the stored rows in the order
  in which SQLite compares the TEXT column, byte by byte. Two messages with different
  identities whose creation texts are \<open>T1 < T2\<close> in that order, upserted into an empty
  store in either order, in one call or in two, leave \<open>T2\<close> as the latest.
\<close>

theorem latest_is_maximum:
  "latest_message_time d
     = (if messages d = [] then None else Some (Max (row_created_at ` set (messages d))))
   \<and> (created_at m1 < created_at m2 \<and> msg_id m1 \<noteq> msg_id m2
      \<longrightarrow> latest_message_time (fst (upsert_messages Database_init now [m1, m2]))
            = Some (created_at m2)
        \<and> latest_message_time (fst (upsert_messages Database_init now [m2, m1]))
            = Some (created_at m2)
        \<and> latest_message_time (fst (upsert_messages
              (fst (upsert_messages Database_init now [m1])) now' [m2])) = Some (created_at m2)
        \<and> latest_message_time (fst (upsert_messages
              (fst (upsert_messages Database_init now [m2])) now' [m1])) = Some (created_at m2))"
proof (intro conjI impI)
  show "latest_message_time d
     = (if messages d = [] then None else Some (Max (row_created_at ` set (messages d))))"
    by (rule latest_message_time_Max)
next
  assume a: "created_at m1 < created_at m2 \<and> msg_id m1 \<noteq> msg_id m2"
  then have ne: "msg_id m1 \<noteq> msg_id m2" "msg_id m2 \<noteq> msg_id m1" by auto
  have mx: "max (created_at m1) (created_at m2) = created_at m2"
    "max (created_at m2) (created_at m1) = created_at m2"
    using a by (simp_all add: max_absorb1 max_absorb2 less_imp_le)
  show "latest_message_time (fst (upsert_messages Database_init now [m1, m2])) = Some (created_at m2)"
    using mx by (simp add: latest_message_time_Max upsert_two_new [OF ne(1)] row_of_def)
  show "latest_message_time (fst (upsert_messages Database_init now [m2, m1])) = Some (created_at m2)"
    using mx by (simp add: latest_message_time_Max upsert_two_new [OF ne(2)] row_of_def)
  have "messages (fst (upsert_messages (fst (upsert_messages Database_init now [m1])) now' [m2]))
      = [row_of m1 now, row_of m2 now']"
    using ne by (intro upsert_second_new) (simp_all add: upsert_one_new row_of_def)
  then show "latest_message_time (fst (upsert_messages
              (fst (upsert_messages Database_init now [m1])) now' [m2])) = Some (created_at m2)"
    using mx by (simp add: latest_message_time_Max row_of_def)
  have "messages (fst (upsert_messages (fst (upsert_messages Database_init now [m2])) now' [m1]))
      = [row_of m2 now, row_of m1 now']"
    using ne by (intro upsert_second_new) (simp_all add: upsert_one_new row_of_def)
  then show "latest_message_time (fst (upsert_messages
              (fst (upsert_messages Database_init now [m2])) now' [m1])) = Some (created_at m2)"
    using mx by (simp add: latest_message_time_Max row_of_def)
qed


theorem latest_is_maximum_witness:
  "created_at msg_a < created_at msg_b \<and> msg_id msg_a \<noteq> msg_id msg_b
   \<and> latest_message_time (fst (upsert_messages Database_init ''2024-01-01T12:00:00+00:00''
         [msg_a, msg_b])) = Some ''2024-01-01T11:30:00.000000Z''
   \<and> latest_message_time (fst (upsert_messages Database_init ''2024-01-01T12:00:00+00:00''
         [msg_b, msg_a])) = Some ''2024-01-01T11:30:00.000000Z''"
proof -
  have h: "created_at msg_a < created_at msg_b \<and> msg_id msg_a \<noteq> msg_id msg_b"
    by (simp add: msg_a_def msg_b_def normalize_msg_def get_default_def raw_a_def)
  have c: "created_at msg_b = ''2024-01-01T11:30:00.000000Z''"
    by (simp add: msg_b_def)
  from h latest_is_maximum [where ?m1.0 = msg_a and ?m2.0 = msg_b and d = Database_init
      and now = "''2024-01-01T12:00:00+00:00''" and now' = "''2024-01-01T12:00:00+00:00''"]
  have "latest_message_time (fst (upsert_messages Database_init ''2024-01-01T12:00:00+00:00''
         [msg_a, msg_b])) = Some (created_at msg_b)"
    and "latest_message_time (fst (upsert_messages Database_init ''2024-01-01T12:00:00+00:00''
         [msg_b, msg_a])) = Some (created_at msg_b)"
    by blast+
  then show ?thesis using h c by simp
qed


text \<open>
  Claim C6 as stated fails where the order of the texts is not the order of the instants.
  A message created on the whole second 10:00:00 carries the text without a fraction, one
  created half a second later the text with \<^verbatim>\<open>.500000\<close>; the later text is the smaller
  one, and \<^verbatim>\<open>latest_message_time\<close> returns the earlier instant, whatever the order of
  insertion.
\<close>

theorem latest_is_not_latest_instant:
  "earlier (created_at msg_whole) (created_at msg_half)
   \<and> msg_id msg_whole \<noteq> msg_id msg_half
   \<and> created_at msg_half < created_at msg_whole
   \<and> latest_message_time (fst (upsert_messages Database_init ''2024-01-01T12:00:00+00:00''
        [msg_whole, msg_half])) = Some (created_at msg_whole)
   \<and> latest_message_time (fst (upsert_messages Database_init ''2024-01-01T12:00:00+00:00''
        [msg_half, msg_whole])) = Some (created_at msg_whole)"
proof -
  have e: "earlier (created_at msg_whole) (created_at msg_half)"
    by (simp add: earlier_def instant_of_def msg_whole_def msg_half_def Let_def)
  have i: "msg_id msg_whole \<noteq> msg_id msg_half" "msg_id msg_half \<noteq> msg_id msg_whole"
    by (simp_all add: msg_whole_def msg_half_def)
  have o: "created_at msg_half < created_at msg_whole"
    by (simp add: msg_whole_def msg_half_def)
  then have mx: "max (created_at msg_whole) (created_at msg_half) = created_at msg_whole"
    "max (created_at msg_half) (created_at msg_whole) = created_at msg_whole"
    by (simp_all add: max_absorb1 max_absorb2 less_imp_le)
  have a: "latest_message_time (fst (upsert_messages Database_init ''2024-01-01T12:00:00+00:00''
        [msg_whole, msg_half])) = Some (created_at msg_whole)"
    using mx by (simp add: latest_message_time_Max upsert_two_new [OF i(1)] row_of_def)
  have b: "latest_message_time (fst (upsert_messages Database_init ''2024-01-01T12:00:00+00:00''
        [msg_half, msg_whole])) = Some (created_at msg_whole)"
    using mx by (simp add: latest_message_time_Max upsert_two_new [OF i(2)] row_of_def)
  show ?thesis using e i o a b by simp
qed


section \<open>The poll cursor\<close>

lemma poll_fn_calls:
  "fetch_calls (poll_fn w d) =
     (case parse_if_truthy w (latest_message_time d) of Inl e \<Rightarrow> [] | Inr after \<Rightarrow> [after])"
  by (simp add: poll_fn_def case_prod_beta split: sum.splits)

lemma list_messages_request:
  assumes "fst (get_service w d) = Inr svc"
  shows "fst (list_messages w d after n) =
     (case fetch_pages (remote_list w
          \<lparr>pageSize = min n 1000,
           filter_arg = (case after of None \<Rightarrow> NoFilter | Some t \<Rightarrow> CreateTimeGt t)\<rparr>) [] of
        Inl e \<Rightarrow> Inl e
      | Inr all_messages \<Rightarrow> Inr (rev all_messages))"
  using assms by (auto simp add: list_messages_def Let_def split: prod.splits sum.splits)

lemma poll_fn_of_fetch:
  assumes "parse_if_truthy w (latest_message_time d) = Inr after"
  shows "outcome (poll_fn w d) =
      (case list_messages w d after 100 of
         (Inl e, d1) \<Rightarrow> if e = RuntimeError then Inr 0 else Inl e
       | (Inr msgs, d1) \<Rightarrow> Inr (snd (upsert_messages d1 (utcnow_upsert w) msgs)))"
    and "db_after (poll_fn w d) =
      (case list_messages w d after 100 of
         (Inl e, d1) \<Rightarrow> d1
       | (Inr msgs, d1) \<Rightarrow> fst (upsert_messages d1 (utcnow_upsert w) msgs))"
    and "fetch_calls (poll_fn w d) = [after]"
  using assms
  by (simp_all add: poll_fn_def case_prod_beta upsert_messages_def split: prod.splits sum.splits)

text \<open>
  Claim C5, as the code has it. An iteration calls the fetcher as \<^verbatim>\<open>poll_fn\<close> does.
  On a store without messages \<^verbatim>\<open>poll_fn\<close> calls \<^verbatim>\<open>list_messages\<close> without a lower
  bound; on a store with messages whose greatest creation timestamp is a non-empty text
  that \<^verbatim>\<open>datetime.fromisoformat\<close> accepts, it calls it with the parsed timestamp as
  \<^verbatim>\<open>after\<close>. In both cases what \<^verbatim>\<open>poll_fn\<close> returns and leaves in the store is what
  that one call returned: its messages upserted, its RuntimeError turned into 0, any other
  exception of it raised. The bound depends on the stored messages only, not on any other
  part of the store. With credentials at hand, the call sends the remote the filter
  \<^verbatim>\<open>createTime > after\<close>, and no filter when \<^verbatim>\<open>after\<close> is absent, and returns the
  remote's answer to that request.
\<close>

theorem poll_cursor:
  "fetched_with (tick cfg w s) = fetch_calls (poll_fn w (db s))
   \<and> (messages d0 = []
      \<longrightarrow> fetch_calls (poll_fn w d0) = [None]
        \<and> outcome (poll_fn w d0)
            = (case list_messages w d0 None 100 of
                 (Inl e, d1) \<Rightarrow> if e = RuntimeError then Inr 0 else Inl e
               | (Inr msgs, d1) \<Rightarrow> Inr (snd (upsert_messages d1 (utcnow_upsert w) msgs)))
        \<and> db_after (poll_fn w d0)
            = (case list_messages w d0 None 100 of
                 (Inl e, d1) \<Rightarrow> d1
               | (Inr msgs, d1) \<Rightarrow> fst (upsert_messages d1 (utcnow_upsert w) msgs)))
   \<and> (messages d \<noteq> [] \<and> Max (row_created_at ` set (messages d)) = ts \<and> ts \<noteq> []
        \<and> fromisoformat w ts = Some t
      \<longrightarrow> fetch_calls (poll_fn w d) = [Some t]
        \<and> outcome (poll_fn w d)
            = (case list_messages w d (Some t) 100 of
                 (Inl e, d1) \<Rightarrow> if e = RuntimeError then Inr 0 else Inl e
               | (Inr msgs, d1) \<Rightarrow> Inr (snd (upsert_messages d1 (utcnow_upsert w) msgs)))
        \<and> db_after (poll_fn w d)
            = (case list_messages w d (Some t) 100 of
                 (Inl e, d1) \<Rightarrow> d1
               | (Inr msgs, d1) \<Rightarrow> fst (upsert_messages d1 (utcnow_upsert w) msgs)))
   \<and> (messages d' = messages d \<longrightarrow> fetch_calls (poll_fn w d') = fetch_calls (poll_fn w d))
   \<and> (fst (get_service w d) = Inr svc
      \<longrightarrow> fst (list_messages w d (Some t) 100)
           = (case fetch_pages (remote_list w \<lparr>pageSize = 100, filter_arg = CreateTimeGt t\<rparr>) [] of
                Inl e \<Rightarrow> Inl e
              | Inr all_messages \<Rightarrow> Inr (rev all_messages))
        \<and> fst (list_messages w d None 100)
           = (case fetch_pages (remote_list w \<lparr>pageSize = 100, filter_arg = NoFilter\<rparr>) [] of
                Inl e \<Rightarrow> Inl e
              | Inr all_messages \<Rightarrow> Inr (rev all_messages)))"
proof (intro conjI impI)
  show "fetched_with (tick cfg w s) = fetch_calls (poll_fn w (db s))"
    by (rule tick_fetched)
next
  assume "messages d0 = []"
  then have p: "parse_if_truthy w (latest_message_time d0) = Inr None"
    by (simp add: latest_message_time_Max parse_if_truthy_def)
  show "fetch_calls (poll_fn w d0) = [None]"
    by (rule poll_fn_of_fetch(3) [OF p])
  show "outcome (poll_fn w d0)
            = (case list_messages w d0 None 100 of
                 (Inl e, d1) \<Rightarrow> if e = RuntimeError then Inr 0 else Inl e
               | (Inr msgs, d1) \<Rightarrow> Inr (snd (upsert_messages d1 (utcnow_upsert w) msgs)))"
    by (rule poll_fn_of_fetch(1) [OF p])
  show "db_after (poll_fn w d0)
            = (case list_messages w d0 None 100 of
                 (Inl e, d1) \<Rightarrow> d1
               | (Inr msgs, d1) \<Rightarrow> fst (upsert_messages d1 (utcnow_upsert w) msgs))"
    by (rule poll_fn_of_fetch(2) [OF p])
next
  assume "messages d \<noteq> [] \<and> Max (row_created_at ` set (messages d)) = ts \<and> ts \<noteq> []
        \<and> fromisoformat w ts = Some t"
  then have p: "parse_if_truthy w (latest_message_time d) = Inr (Some t)"
    by (simp add: latest_message_time_Max parse_if_truthy_def)
  show "fetch_calls (poll_fn w d) = [Some t]"
    by (rule poll_fn_of_fetch(3) [OF p])
  show "outcome (poll_fn w d)
            = (case list_messages w d (Some t) 100 of
                 (Inl e, d1) \<Rightarrow> if e = RuntimeError then Inr 0 else Inl e
               | (Inr msgs, d1) \<Rightarrow> Inr (snd (upsert_messages d1 (utcnow_upsert w) msgs)))"
    by (rule poll_fn_of_fetch(1) [OF p])
  show "db_after (poll_fn w d)
            = (case list_messages w d (Some t) 100 of
                 (Inl e, d1) \<Rightarrow> d1
               | (Inr msgs, d1) \<Rightarrow> fst (upsert_messages d1 (utcnow_upsert w) msgs))"
    by (rule poll_fn_of_fetch(2) [OF p])
next
  assume "messages d' = messages d"
  then have "latest_message_time d' = latest_message_time d"
    by (simp add: latest_message_time_def)
  then show "fetch_calls (poll_fn w d') = fetch_calls (poll_fn w d)"
    by (simp add: poll_fn_calls)
next
  assume a: "fst (get_service w d) = Inr svc"
  show "fst (list_messages w d (Some t) 100)
           = (case fetch_pages (remote_list w \<lparr>pageSize = 100, filter_arg = CreateTimeGt t\<rparr>) [] of
                Inl e \<Rightarrow> Inl e
              | Inr all_messages \<Rightarrow> Inr (rev all_messages))"
    using list_messages_request [OF a, of "Some t" 100] by simp
  show "fst (list_messages w d None 100)
           = (case fetch_pages (remote_list w \<lparr>pageSize = 100, filter_arg = NoFilter\<rparr>) [] of
                Inl e \<Rightarrow> Inl e
              | Inr all_messages \<Rightarrow> Inr (rev all_messages))"
    using list_messages_request [OF a, of None 100] by simp
qed

theorem poll_cursor_witness:
  "messages db_authed = []
   \<and> fetched_with (tick default_config w_filtering \<lparr>poller = Poller_init, db = db_authed\<rparr>) = [None]
   \<and> map row_id (messages (db_after (poll_fn w_filtering db_authed))) = [''spaces/S/messages/a'']
   \<and> messages db_stored \<noteq> []
   \<and> Max (row_created_at ` set (messages db_stored)) = ''2024-01-01T10:00:00.000000Z''
   \<and> fromisoformat w_filtering ''2024-01-01T10:00:00.000000Z'' = Some 27
   \<and> fetched_with (tick default_config w_filtering \<lparr>poller = Poller_init, db = db_stored\<rparr>)
       = [Some 27]
   \<and> outcome (poll_fn w_filtering db_stored) = Inr 0
   \<and> messages (db_after (poll_fn w_filtering db_stored)) = messages db_stored
   \<and> fst (get_service w_filtering db_stored)
       = Inr \<lparr>token = Some ''ya29.at'', refresh_token = ''1//rt'', expiry = None\<rparr>
   \<and> fst (list_messages w_filtering db_stored (Some 27) 100) = Inr []
   \<and> fst (list_messages w_filtering db_stored None 100) = Inr [normalize_msg raw_a]"
proof -
  note eval_defs = model_defs db_authed_def db_stored_def raw_a_def w_filtering_def w0_def
  let ?svc = "\<lparr>token = Some ''ya29.at'', refresh_token = ''1//rt'', expiry = None :: nat option\<rparr>"
  have e: "messages db_authed = []"
    by (simp add: db_authed_def Database_init_def)
  have m: "messages db_stored = [row_of msg_a ''2024-01-01T10:00:05+00:00'']"
    by (simp add: eval_defs msg_a_def)
  have x: "Max (row_created_at ` set (messages db_stored)) = ''2024-01-01T10:00:00.000000Z''"
    by (simp add: m) (simp add: eval_defs msg_a_def)
  have p: "fromisoformat w_filtering ''2024-01-01T10:00:00.000000Z'' = Some 27"
    by (simp add: w_filtering_def w0_def)
  have g: "fst (get_service w_filtering db_stored) = Inr ?svc"
    by (simp add: eval_defs)
  have l0: "list_messages w_filtering db_authed None 100 = (Inr [normalize_msg raw_a], db_authed)"
    by (simp add: eval_defs)
  have l1: "list_messages w_filtering db_stored (Some 27) 100 = (Inr [], db_stored)"
    by (simp add: list_messages_def get_service_def load_credentials_def get_auth_def
        parse_if_truthy_def w_filtering_def w0_def Let_def)
      (simp add: eval_defs)
  have u: "map row_id (messages (fst (upsert_messages db_authed (utcnow_upsert w_filtering)
      [normalize_msg raw_a]))) = [''spaces/S/messages/a'']"
    by (simp add: eval_defs)
  note c1 = poll_cursor [where cfg = default_config and w = w_filtering
      and s = "\<lparr>poller = Poller_init, db = db_authed\<rparr>"
      and ?d0.0 = "db \<lparr>poller = Poller_init, db = db_authed\<rparr>" and d = db_stored
      and d' = db_stored and ts = "''2024-01-01T10:00:00.000000Z''" and t = 27 and svc = ?svc]
  note c2 = poll_cursor [where cfg = default_config and w = w_filtering
      and s = "\<lparr>poller = Poller_init, db = db_stored\<rparr>"
      and ?d0.0 = db_authed and d = "db \<lparr>poller = Poller_init, db = db_stored\<rparr>"
      and d' = db_stored and ts = "''2024-01-01T10:00:00.000000Z''" and t = 27 and svc = ?svc]
  have f0: "fetched_with (tick default_config w_filtering \<lparr>poller = Poller_init, db = db_authed\<rparr>)
      = [None]"
    using c1 e by simp
  have s0: "map row_id (messages (db_after (poll_fn w_filtering db_authed)))
      = [''spaces/S/messages/a'']"
    using c2 e l0 u by simp
  have f1: "fetched_with (tick default_config w_filtering \<lparr>poller = Poller_init, db = db_stored\<rparr>)
      = [Some 27]"
    using c2 m x p by simp
  have o1: "outcome (poll_fn w_filtering db_stored) = Inr 0
      \<and> messages (db_after (poll_fn w_filtering db_stored)) = messages db_stored"
    using c2 m x p l1 by (simp add: upsert_messages_def)
  have r1: "fst (list_messages w_filtering db_stored (Some 27) 100) = Inr []
      \<and> fst (list_messages w_filtering db_stored None 100) = Inr [normalize_msg raw_a]"
    using c2 g by (simp add: w_filtering_def)
  show ?thesis
    using e m x p g f0 s0 f1 o1 r1 by simp
qed

text \<open>
  Claim C5 as stated fails, for it speaks of every iteration. A store whose only message
  came without \<^verbatim>\<open>createTime\<close> has the empty text as its latest timestamp: the fetch is
  then unbounded although the store has a message, and the remote's unfiltered answer is
  stored. And where \<^verbatim>\<open>datetime.fromisoformat\<close> rejects the latest timestamp, the
  fetcher is not called at all and the iteration logs ValueError.
\<close>

theorem cursor_not_always_passed:
  "messages db_untimed \<noteq> []
   \<and> latest_message_time db_untimed = Some []
   \<and> fetched_with (tick default_config w_filtering \<lparr>poller = Poller_init, db = db_untimed\<rparr>)
       = [None]
   \<and> map row_id (messages (db (after_tick (tick default_config w_filtering
        \<lparr>poller = Poller_init, db = db_untimed\<rparr>))))
       = [''spaces/S/messages/x'', ''spaces/S/messages/a'']
   \<and> latest_message_time db_stored = Some ''2024-01-01T10:00:00.000000Z''
   \<and> fetched_with (tick default_config w_unparsable \<lparr>poller = Poller_init, db = db_stored\<rparr>)
       = []
   \<and> logged (tick default_config w_unparsable \<lparr>poller = Poller_init, db = db_stored\<rparr>)
       = Some ValueError"
proof -
  note eval_defs = model_defs db_authed_def db_stored_def db_untimed_def raw_a_def
    raw_untimed_def w_filtering_def w_unparsable_def w0_def
  have m: "messages db_untimed \<noteq> []"
    by (simp add: eval_defs)
  have l: "latest_message_time db_untimed = Some []"
    by (simp add: eval_defs)
  have q: "poll_fn w_filtering db_untimed
      = \<lparr>outcome = Inr (snd (upsert_messages db_untimed (utcnow_upsert w_filtering)
            [normalize_msg raw_a])),
         db_after = fst (upsert_messages db_untimed (utcnow_upsert w_filtering)
            [normalize_msg raw_a]),
         fetch_calls = [None]\<rparr>"
    unfolding poll_fn_def l
    by (simp add: parse_if_truthy_def list_messages_def get_service_def load_credentials_def
        get_auth_def case_prod_beta Let_def)
      (simp add: eval_defs)
  have r: "map row_id (messages (fst (upsert_messages db_untimed (utcnow_upsert w_filtering)
      [normalize_msg raw_a]))) = [''spaces/S/messages/x'', ''spaces/S/messages/a'']"
    by (simp add: eval_defs)
  have l2: "latest_message_time db_stored = Some ''2024-01-01T10:00:00.000000Z''"
    by (simp add: eval_defs)
  have q2: "poll_fn w_unparsable db_stored
      = \<lparr>outcome = Inl ValueError, db_after = db_stored, fetch_calls = []\<rparr>"
    unfolding poll_fn_def l2 by (simp add: parse_if_truthy_def w_unparsable_def w0_def)
  show ?thesis
    using m l l2 r by (simp add: tick_fetched tick_messages tick_logged q q2)
qed

section \<open>Unread messages\<close>






section \<open>Upsert\<close>

lemma upsert_present:
  assumes "msg_id m \<in> set (map row_id (messages d))"
  shows "upsert_messages d now [m] = (d, int (total_changes d))"
  using assms by (simp add: upsert_messages_def insert_or_ignore_def row_of_def Let_def)

lemma insert_or_ignore_distinct:
  "distinct (map row_id (messages d)) \<Longrightarrow> distinct (map row_id (messages (insert_or_ignore d r)))"
  by (simp add: insert_or_ignore_def)

lemma upsert_loop_distinct:
  "distinct (map row_id (messages d)) \<Longrightarrow>
     distinct (map row_id (messages (fst (upsert_loop now msgs d n))))"
  by (induction msgs arbitrary: d n) (simp_all add: Let_def insert_or_ignore_distinct)

lemma upsert_messages_distinct:
  "distinct (map row_id (messages d)) \<Longrightarrow>
     distinct (map row_id (messages (fst (upsert_messages d now msgs))))"
  by (simp add: upsert_messages_def upsert_loop_distinct)

text \<open>
  Claim C4. An upsert of an identity that is already stored changes no row and raises
  nothing (\<open>upsert_present\<close>, \<open>upsert_messages_distinct\<close>), but the count it returns is
  the connection's \<^verbatim>\<open>total_changes\<close>, not zero: on a fresh store the first upsert of a
  message returns 1, the second upsert of the same message leaves the one row and returns 1
  again, and an upsert of two new messages returns 3.
\<close>

theorem upsert_count_is_cumulative:
  "snd (upsert_messages Database_init ''2024-01-01T10:00:05+00:00'' [msg_a]) = 1
   \<and> messages (fst (upsert_messages
         (fst (upsert_messages Database_init ''2024-01-01T10:00:05+00:00'' [msg_a]))
         ''2024-01-01T10:05:05+00:00'' [msg_a]))
       = messages (fst (upsert_messages Database_init ''2024-01-01T10:00:05+00:00'' [msg_a]))
   \<and> length (messages (fst (upsert_messages
         (fst (upsert_messages Database_init ''2024-01-01T10:00:05+00:00'' [msg_a]))
         ''2024-01-01T10:05:05+00:00'' [msg_a]))) = 1
   \<and> snd (upsert_messages
         (fst (upsert_messages Database_init ''2024-01-01T10:00:05+00:00'' [msg_a]))
         ''2024-01-01T10:05:05+00:00'' [msg_a]) = 1
   \<and> snd (upsert_messages Database_init ''2024-01-01T10:00:05+00:00'' [msg_a, msg_b]) = 3"
  by (simp add: upsert_messages_def insert_or_ignore_def row_of_def Database_init_def
      msg_a_def msg_b_def normalize_msg_def get_default_def raw_a_def Let_def)

end
